theory Spec2Isabelle
  imports Main "HOL-Library.Log_Nat"
begin

section \<open>Python values used by the sound engine and the validation helpers\<close>

subsection \<open>Floats\<close>

text \<open>
  A Python float is an IEEE-754 binary64 value.  A finite value is kept as the rational
  it denotes; the sign of zero is not kept, since subtraction, multiplication and
  comparison (the only float operations of the two modules) cannot observe it.
\<close>

datatype pyfloat = Fin rat | PosInf | NegInf | NaN

definition pow2 :: "int \<Rightarrow> rat" where
  "pow2 e = (if 0 \<le> e then 2 ^ nat e else 1 / 2 ^ nat (- e))"

text \<open>The binary exponent of a positive rational: the \<open>e\<close> with \<open>2^e \<le> q < 2^(e+1)\<close>.\<close>

definition ilog2 :: "rat \<Rightarrow> int" where
  "ilog2 q = (if 1 \<le> q then int (floorlog 2 (nat \<lfloor>q\<rfloor>)) - 1
              else - int (floorlog 2 (nat (\<lceil>1 / q\<rceil> - 1))))"

definition round_half_even :: "rat \<Rightarrow> int" where
  "round_half_even x = (let n = \<lfloor>x\<rfloor>; r = x - of_int n
     in if r < 1 / 2 then n else if 1 / 2 < r then n + 1
        else if even n then n else n + 1)"

text \<open>
  Rounding to the nearest binary64 value, ties to even: 53 significant bits, least
  exponent \<open>-1022\<close> (below it the spacing stays \<open>2^-1074\<close>), and a result of
  magnitude \<open>2^1024\<close> or more is an infinity.  The rounded significand \<open>m\<close> is at
  most \<open>2^53\<close>, so the result reaches \<open>2^1024\<close> exactly when the exponent is above
  1023, or is 1023 with \<open>m\<close> rounded up to \<open>2^53\<close>.
\<close>

definition round64 :: "rat \<Rightarrow> pyfloat" where
  "round64 q = (if q = 0 then Fin 0 else
     let e = max (ilog2 \<bar>q\<bar>) (- 1022);
         ulp = pow2 (e - 52);
         m = round_half_even (q / ulp)
     in if 1023 < e \<or> (e = 1023 \<and> \<bar>m\<bar> = 2 ^ 53)
        then (if 0 < q then PosInf else NegInf)
        else Fin (of_int m * ulp))"

text \<open>A decimal float literal of the source, such as \<open>0.2\<close>, and a clock reading.\<close>

definition py_float :: "rat \<Rightarrow> pyfloat" where
  "py_float q = round64 q"

fun fl_sub :: "pyfloat \<Rightarrow> pyfloat \<Rightarrow> pyfloat" where
  "fl_sub NaN y = NaN"
| "fl_sub x NaN = NaN"
| "fl_sub (Fin a) (Fin b) = round64 (a - b)"
| "fl_sub PosInf PosInf = NaN"
| "fl_sub NegInf NegInf = NaN"
| "fl_sub PosInf y = PosInf"
| "fl_sub NegInf y = NegInf"
| "fl_sub (Fin a) PosInf = NegInf"
| "fl_sub (Fin a) NegInf = PosInf"

fun fl_mul :: "pyfloat \<Rightarrow> pyfloat \<Rightarrow> pyfloat" where
  "fl_mul NaN y = NaN"
| "fl_mul x NaN = NaN"
| "fl_mul (Fin a) (Fin b) = round64 (a * b)"
| "fl_mul (Fin a) PosInf = (if a = 0 then NaN else if 0 < a then PosInf else NegInf)"
| "fl_mul (Fin a) NegInf = (if a = 0 then NaN else if 0 < a then NegInf else PosInf)"
| "fl_mul PosInf (Fin b) = (if b = 0 then NaN else if 0 < b then PosInf else NegInf)"
| "fl_mul NegInf (Fin b) = (if b = 0 then NaN else if 0 < b then NegInf else PosInf)"
| "fl_mul PosInf PosInf = PosInf"
| "fl_mul PosInf NegInf = NegInf"
| "fl_mul NegInf PosInf = NegInf"
| "fl_mul NegInf NegInf = PosInf"

text \<open>\<open>x >= y\<close> on floats: false as soon as one side is a NaN.\<close>

fun fl_ge :: "pyfloat \<Rightarrow> pyfloat \<Rightarrow> bool" where
  "fl_ge NaN y = False"
| "fl_ge x NaN = False"
| "fl_ge (Fin a) (Fin b) = (b \<le> a)"
| "fl_ge PosInf y = True"
| "fl_ge x NegInf = True"
| "fl_ge NegInf y = False"
| "fl_ge (Fin a) PosInf = False"

subsection \<open>Dynamically typed values\<close>

text \<open>
  The values a caller can hand to \<open>set_sound\<close> and \<open>assert_color\<close>.  \<open>PyInt\<close>
  stands for every instance of \<open>int\<close>, which in Python includes \<open>True\<close> (1) and
  \<open>False\<close> (0); \<open>PyObject\<close> is any object of another type, named by its identity.
\<close>

datatype pyval =
    PyNone
  | PyInt int
  | PyFloat pyfloat
  | PyStr string
  | PyTuple "pyval list"
  | PyList "pyval list"
  | PyObject nat

text \<open>
  The exceptions raised by the two modules, and the two that the mixer raises when it
  converts the arguments of \<open>channel.play\<close>.  An \<open>AssertionError\<close> carries the text of
  the condition that failed, which tells the \<open>assert\<close> statements of a function apart.
\<close>

datatype py_error = AssertionError string | ValueError | IOError | TypeError | OverflowError

definition isinstance_str :: "pyval \<Rightarrow> bool" where
  "isinstance_str v = (case v of PyStr x \<Rightarrow> True | _ \<Rightarrow> False)"

definition isinstance_str_or_none :: "pyval \<Rightarrow> bool" where
  "isinstance_str_or_none v = (case v of PyStr x \<Rightarrow> True | PyNone \<Rightarrow> True | _ \<Rightarrow> False)"

definition isinstance_float :: "pyval \<Rightarrow> bool" where
  "isinstance_float v = (case v of PyFloat x \<Rightarrow> True | _ \<Rightarrow> False)"

definition isinstance_int :: "pyval \<Rightarrow> bool" where
  "isinstance_int v = (case v of PyInt x \<Rightarrow> True | _ \<Rightarrow> False)"

definition isinstance_int_or_float :: "pyval \<Rightarrow> bool" where
  "isinstance_int_or_float v = (case v of PyInt x \<Rightarrow> True | PyFloat x \<Rightarrow> True | _ \<Rightarrow> False)"

text \<open>
  \<open>x >= a\<close> and \<open>a >= x\<close> for a number \<open>x\<close> and an int literal \<open>a\<close>: Python
  compares an int with a float exactly.  On other values the comparison is never
  reached (an \<open>isinstance\<close> assertion comes first), and is given as false.
\<close>

definition py_ge_int :: "pyval \<Rightarrow> int \<Rightarrow> bool" where
  "py_ge_int v a = (case v of PyInt n \<Rightarrow> a \<le> n
                     | PyFloat x \<Rightarrow> fl_ge x (Fin (of_int a))
                     | _ \<Rightarrow> False)"

definition py_int_ge :: "int \<Rightarrow> pyval \<Rightarrow> bool" where
  "py_int_ge a v = (case v of PyInt n \<Rightarrow> n \<le> a
                     | PyFloat x \<Rightarrow> fl_ge (Fin (of_int a)) x
                     | _ \<Rightarrow> False)"

section \<open>The sound engine (\<open>pygame_menu/sound.py\<close>)\<close>

subsection \<open>Sound types and example files\<close>

definition SOUND_TYPE_CLICK_MOUSE :: string where
  "SOUND_TYPE_CLICK_MOUSE = ''__pygame_menu_sound_click_mouse__''"

definition SOUND_TYPE_CLOSE_MENU :: string where
  "SOUND_TYPE_CLOSE_MENU = ''__pygame_menu_sound_close_menu__''"

definition SOUND_TYPE_ERROR :: string where
  "SOUND_TYPE_ERROR = ''__pygame_menu_sound_error__''"

definition SOUND_TYPE_EVENT :: string where
  "SOUND_TYPE_EVENT = ''__pygame_menu_sound_event__''"

definition SOUND_TYPE_EVENT_ERROR :: string where
  "SOUND_TYPE_EVENT_ERROR = ''__pygame_menu_sound_event_error__''"

definition SOUND_TYPE_KEY_ADDITION :: string where
  "SOUND_TYPE_KEY_ADDITION = ''__pygame_menu_sound_key_addition__''"

definition SOUND_TYPE_KEY_DELETION :: string where
  "SOUND_TYPE_KEY_DELETION = ''__pygame_menu_sound_key_deletion__''"

definition SOUND_TYPE_OPEN_MENU :: string where
  "SOUND_TYPE_OPEN_MENU = ''__pygame_menu_sound_open_menu__''"

definition SOUND_TYPE_WIDGET_SELECTION :: string where
  "SOUND_TYPE_WIDGET_SELECTION = ''__pygame_menu_sound_widget_selection__''"

text \<open>
  \<open>self._type_sounds\<close>: assigned once by the constructor and never written again, so it
  is a constant of the model.
\<close>

definition type_sounds :: "string list" where
  "type_sounds =
    [SOUND_TYPE_CLICK_MOUSE, SOUND_TYPE_CLOSE_MENU, SOUND_TYPE_ERROR, SOUND_TYPE_EVENT,
     SOUND_TYPE_EVENT_ERROR, SOUND_TYPE_KEY_ADDITION, SOUND_TYPE_KEY_DELETION,
     SOUND_TYPE_OPEN_MENU, SOUND_TYPE_WIDGET_SELECTION]"

text \<open>
  The example paths are built from the directory of the module file, which is a
  parameter here (\<open>here\<close>), joined with the POSIX separator.
\<close>

definition sounds_path :: "string \<Rightarrow> string \<Rightarrow> string" where
  "sounds_path here name = here @ ''/resources/sounds/'' @ name"

definition SOUND_EXAMPLES :: "string \<Rightarrow> string list" where
  "SOUND_EXAMPLES here =
    [sounds_path here ''click_mouse.ogg'', sounds_path here ''close_menu.ogg'',
     sounds_path here ''error.ogg'', sounds_path here ''event.ogg'',
     sounds_path here ''event_error.ogg'', sounds_path here ''key_add.ogg'',
     sounds_path here ''key_delete.ogg'', sounds_path here ''open_menu.ogg'',
     sounds_path here ''widget_selection.ogg'']"

subsection \<open>State of a \<open>Sound\<close> object\<close>

text \<open>
  The dict stored under a sound type by \<open>set_sound\<close>.  The empty dict \<open>{}\<close> of an
  unbound type is \<open>None\<close> in \<open>'snd sound_dict option\<close>.
\<close>

record 'snd sound_dict =
  d_file :: 'snd
  d_path :: string
  d_type :: string
  d_length :: pyfloat
  d_volume :: pyval
  d_loops :: pyval
  d_maxtime :: pyval
  d_fade_ms :: pyval

text \<open>
  The attributes \<open>_channel\<close>, \<open>_last_play\<close>, \<open>_last_time\<close>, \<open>_sound\<close> and
  \<open>_uniquechannel\<close>.  Channels and decoded sounds are handles of the mixer, of the
  arbitrary types \<open>'chan\<close> and \<open>'snd\<close>.
\<close>

record ('chan, 'snd) sound_engine =
  channel :: "'chan option"
  last_play :: string
  last_time :: pyfloat
  sound :: "string \<rightharpoonup> 'snd sound_dict option"
  uniquechannel :: bool

text \<open>
  The part of \<open>__init__\<close> that builds the object (lines 165 to 187); the mixer
  initialisation before it does not touch the object.  \<open>_last_time\<close> starts as the int
  \<open>0\<close>, which float arithmetic reads as \<open>0.0\<close>.
\<close>

definition Sound_init :: "bool \<Rightarrow> ('chan, 'snd) sound_engine" where
  "Sound_init uniq =
    \<lparr> channel = None, last_play = [], last_time = Fin 0,
      sound = fold (\<lambda>k m. m(k \<mapsto> None)) type_sounds Map.empty,
      uniquechannel = uniq \<rparr>"

subsection \<open>\<open>get_channel\<close>\<close>

text \<open>
  \<open>found\<close> is what \<open>mixer.find_channel()\<close> answers at this call: a channel, or
  \<open>None\<close> when every channel is busy.  The mixer is taken to be initialised, so
  that \<open>find_channel\<close> answers.
\<close>

definition get_channel ::
  "'chan option \<Rightarrow> ('chan, 'snd) sound_engine \<Rightarrow> 'chan option \<times> ('chan, 'snd) sound_engine" where
  "get_channel found s =
    (let s1 = (if uniquechannel s
               then (if channel s = None then s\<lparr>channel := found\<rparr> else s)
               else s\<lparr>channel := found\<rparr>)
     in (channel s1, s1))"

text \<open>Successive calls of \<open>get_channel\<close>, one per answer of the mixer.\<close>

fun get_channel_calls ::
  "'chan option list \<Rightarrow> ('chan, 'snd) sound_engine \<Rightarrow> 'chan option list \<times> ('chan, 'snd) sound_engine" where
  "get_channel_calls [] s = ([], s)"
| "get_channel_calls (found # rest) s =
    (case get_channel found s of (r, s1) \<Rightarrow>
      (case get_channel_calls rest s1 of (rs, s2) \<Rightarrow> (r # rs, s2)))"

text \<open>The first channel among the mixer's answers, if any.\<close>

fun first_found :: "'chan option list \<Rightarrow> 'chan option" where
  "first_found [] = None"
| "first_found (None # rest) = first_found rest"
| "first_found (Some c # rest) = Some c"

subsection \<open>\<open>set_sound\<close> and \<open>load_example_sounds\<close>\<close>

text \<open>
  What \<open>set_sound\<close> asks of its environment: \<open>os.path.isfile\<close>, the constructor
  \<open>mixer.Sound(file=...)\<close> (\<open>None\<close> when it raises \<open>pygame.error\<close>), and the methods
  \<open>set_volume\<close> and \<open>get_length\<close> of the decoded sound.
\<close>

record 'snd mixer_env =
  isfile :: "string \<Rightarrow> bool"
  mixer_Sound :: "string \<Rightarrow> 'snd option"
  set_volume :: "'snd \<Rightarrow> pyval \<Rightarrow> 'snd"
  get_length :: "'snd \<Rightarrow> pyfloat"

text \<open>
  The ten assertions at the head of \<open>set_sound\<close>, in their order: the condition of the
  first one that fails, or \<open>None\<close> when all hold.
\<close>

definition set_sound_asserts ::
  "pyval \<Rightarrow> pyval \<Rightarrow> pyval \<Rightarrow> pyval \<Rightarrow> pyval \<Rightarrow> pyval \<Rightarrow> string option" where
  "set_sound_asserts sound_type sound_file volume loops maxtime fade_ms =
    (if \<not> isinstance_str sound_type then Some ''isinstance(sound_type, str)''
     else if \<not> isinstance_str_or_none sound_file
       then Some ''isinstance(sound_file, (str, type(None)))''
     else if \<not> isinstance_float volume then Some ''isinstance(volume, float)''
     else if \<not> isinstance_int loops then Some ''isinstance(loops, int)''
     else if \<not> isinstance_int_or_float maxtime then Some ''isinstance(maxtime, (int, float))''
     else if \<not> isinstance_int_or_float fade_ms then Some ''isinstance(fade_ms, (int, float))''
     else if \<not> py_ge_int loops 0 then Some ''loops >= 0''
     else if \<not> py_ge_int maxtime 0 then Some ''maxtime >= 0''
     else if \<not> py_ge_int fade_ms 0 then Some ''fade_ms >= 0''
     else if \<not> (py_int_ge 1 volume \<and> py_ge_int volume 0) then Some ''1 >= volume >= 0''
     else None)"

definition format_warning :: string where
  "format_warning = ''the sound format is not valid, the sound has been disabled''"

text \<open>
  The result is what the call returns or raises, the warnings it emits, and the object
  afterwards.  The two last branches of the case distinctions belong to arguments that
  the \<open>isinstance\<close> assertions on \<open>sound_type\<close> and \<open>sound_file\<close> have already
  rejected; they are not reached.
\<close>

definition set_sound ::
  "'snd mixer_env \<Rightarrow> pyval \<Rightarrow> pyval \<Rightarrow> pyval \<Rightarrow> pyval \<Rightarrow> pyval \<Rightarrow> pyval \<Rightarrow>
   ('chan, 'snd) sound_engine \<Rightarrow> (py_error + bool) \<times> string list \<times> ('chan, 'snd) sound_engine" where
  "set_sound env sound_type sound_file volume loops maxtime fade_ms s =
    (case set_sound_asserts sound_type sound_file volume loops maxtime fade_ms of
       Some failed \<Rightarrow> (Inl (AssertionError failed), [], s)
     | None \<Rightarrow>
        (case sound_type of
           PyStr k \<Rightarrow>
            (if k \<notin> set type_sounds then (Inl ValueError, [], s)
             else case sound_file of
               PyNone \<Rightarrow> (Inr False, [], s\<lparr>sound := (sound s)(k \<mapsto> None)\<rparr>)
             | PyStr f \<Rightarrow>
                (if \<not> isfile env f then (Inl IOError, [], s)
                 else case mixer_Sound env f of
                   None \<Rightarrow>
                    (Inr False, [format_warning], s\<lparr>sound := (sound s)(k \<mapsto> None)\<rparr>)
                 | Some loaded \<Rightarrow>
                    (let sound_data = set_volume env loaded volume
                     in (Inr True, [],
                         s\<lparr>sound := (sound s)(k \<mapsto> Some
                           \<lparr> d_file = sound_data, d_path = f, d_type = k,
                             d_length = get_length env sound_data, d_volume = volume,
                             d_loops = loops, d_maxtime = maxtime, d_fade_ms = fade_ms \<rparr>)\<rparr>)))
             | _ \<Rightarrow> (Inl (AssertionError ''isinstance(sound_file, (str, type(None)))''), [], s))
         | _ \<Rightarrow> (Inl (AssertionError ''isinstance(sound_type, str)''), [], s)))"

text \<open>
  The loop of \<open>load_example_sounds\<close> over the sound types paired with the example
  files; an exception of \<open>set_sound\<close> leaves the loop.
\<close>

fun load_example_loop ::
  "'snd mixer_env \<Rightarrow> pyval \<Rightarrow> (string \<times> string) list \<Rightarrow> ('chan, 'snd) sound_engine \<Rightarrow>
   (py_error + unit) \<times> string list \<times> ('chan, 'snd) sound_engine" where
  "load_example_loop env volume [] s = (Inr (), [], s)"
| "load_example_loop env volume ((k, f) # rest) s =
    (case set_sound env (PyStr k) (PyStr f) volume (PyInt 0) (PyInt 0) (PyInt 0) s of
       (Inl e, w, s1) \<Rightarrow> (Inl e, w, s1)
     | (Inr b, w, s1) \<Rightarrow>
        (case load_example_loop env volume rest s1 of (r, w2, s2) \<Rightarrow> (r, w @ w2, s2)))"

definition load_example_sounds ::
  "'snd mixer_env \<Rightarrow> string \<Rightarrow> pyval \<Rightarrow> ('chan, 'snd) sound_engine \<Rightarrow>
   (py_error + unit) \<times> string list \<times> ('chan, 'snd) sound_engine" where
  "load_example_sounds env here volume s =
    (if \<not> isinstance_float volume
     then (Inl (AssertionError ''isinstance(volume, float)''), [], s)
     else load_example_loop env volume (zip type_sounds (SOUND_EXAMPLES here)) s)"

subsection \<open>\<open>_play_sound\<close>\<close>

text \<open>The calls made on the mixer channel.\<close>

datatype ('chan, 'snd) channel_call =
    Channel_stop 'chan
  | Channel_play 'chan 'snd pyval pyval pyval

fun is_play :: "('chan, 'snd) channel_call \<Rightarrow> bool" where
  "is_play (Channel_play c f l m d) = True"
| "is_play (Channel_stop c) = False"

text \<open>
  The condition of the \<open>if\<close> at lines 296 and 297, with \<open>soundtime\<close> the reading of
  \<open>time.time()\<close>.
\<close>

definition overlap_gate ::
  "'snd sound_dict \<Rightarrow> pyfloat \<Rightarrow> ('chan, 'snd) sound_engine \<Rightarrow> bool" where
  "overlap_gate d soundtime s =
    (d_type d \<noteq> last_play s \<or>
     fl_ge (fl_sub soundtime (last_time s)) (fl_mul (py_float (1 / 5)) (d_length d)) \<or>
     uniquechannel s)"

text \<open>
  What a call of \<open>channel.play\<close> does: it returns, it raises \<open>pygame.error\<close>, or it
  raises another exception.  The mixer converts \<open>loops\<close>, \<open>maxtime\<close> and \<open>fade_ms\<close>
  to C ints and raises \<open>TypeError\<close> for a float and \<open>OverflowError\<close> for an int that
  does not fit; \<open>set_sound\<close> accepts and stores both kinds of value (its assertions on
  \<open>maxtime\<close> and \<open>fade_ms\<close> admit floats, and none bounds an int from above).
\<close>

datatype play_outcome = Play_returns | Play_pygame_error | Play_raises py_error

text \<open>
  \<open>_play_sound\<close>, named \<open>play_sound\<close> here.  \<open>sound_arg\<close> is the argument
  \<open>sound\<close>: \<open>None\<close> for \<open>None\<close> or the empty dict.  \<open>found\<close> is the mixer's answer
  to \<open>find_channel\<close>, \<open>now\<close> the reading of the clock and \<open>outcome\<close> what
  \<open>channel.play\<close> does if it is called.  The result is the returned bool or the
  exception that leaves the method, the calls made on the channel, and the object
  afterwards.

  The \<open>except\<close> clause at line 306 names \<open>pygame.error\<close> only.  A \<open>pygame.error\<close> of
  \<open>channel.play\<close> is ignored, and lines 310 to 312 run as after a call that returned.
  Any other exception leaves \<open>_play_sound\<close> at the call: the method returns nothing
  and \<open>_last_play\<close> and \<open>_last_time\<close> keep their values, while a channel cached by
  \<open>get_channel\<close> stays cached.

  \<open>channel.stop\<close> takes no argument and is taken to return: its only failure is a mixer
  that is not initialised, and the mixer is taken to be initialised as long as the
  object holds or is given a channel.
\<close>

definition play_sound ::
  "'chan option \<Rightarrow> pyfloat \<Rightarrow> play_outcome \<Rightarrow> 'snd sound_dict option \<Rightarrow>
   ('chan, 'snd) sound_engine \<Rightarrow>
   (py_error + bool) \<times> ('chan, 'snd) channel_call list \<times> ('chan, 'snd) sound_engine" where
  "play_sound found now outcome sound_arg s =
    (case sound_arg of
       None \<Rightarrow> (Inr False, [], s)
     | Some d \<Rightarrow>
        (case get_channel found s of
           (None, s1) \<Rightarrow> (Inr False, [], s1)
         | (Some ch, s1) \<Rightarrow>
            (let soundtime = now;
                 stored = s1\<lparr>last_play := d_type d, last_time := soundtime\<rparr>
             in if overlap_gate d soundtime s1
                then (let calls = (if uniquechannel s1 then [Channel_stop ch] else []) @
                            [Channel_play ch (d_file d) (d_loops d) (d_maxtime d) (d_fade_ms d)]
                      in case outcome of
                           Play_returns \<Rightarrow> (Inr True, calls, stored)
                         | Play_pygame_error \<Rightarrow> (Inr True, calls, stored)
                         | Play_raises e \<Rightarrow> (Inl e, calls, s1))
                else (Inr True, [], stored))))"

text \<open>
  Successive calls of \<open>_play_sound\<close> on the same dict, one per mixer answer, clock
  reading and outcome of \<open>channel.play\<close>.  A call that raises is recorded with its
  exception, and the next call is made on the object as the failed call left it.
\<close>

fun play_sound_calls ::
  "('chan option \<times> pyfloat \<times> play_outcome) list \<Rightarrow> 'snd sound_dict option \<Rightarrow>
   ('chan, 'snd) sound_engine \<Rightarrow>
   ((py_error + bool) \<times> ('chan, 'snd) channel_call list) list \<times> ('chan, 'snd) sound_engine" where
  "play_sound_calls [] sound_arg s = ([], s)"
| "play_sound_calls ((found, now, outcome) # rest) sound_arg s =
    (case play_sound found now outcome sound_arg s of (r, calls, s1) \<Rightarrow>
      (case play_sound_calls rest sound_arg s1 of (rs, s2) \<Rightarrow> ((r, calls) # rs, s2)))"

subsection \<open>\<open>get_channel_info\<close>\<close>

text \<open>The five getters of the mixer channel; their values are of an arbitrary type \<open>'v\<close>.\<close>

record ('chan, 'v) channel_getters =
  get_busy :: "'chan \<Rightarrow> 'v"
  get_endevent :: "'chan \<Rightarrow> 'v"
  get_queue :: "'chan \<Rightarrow> 'v"
  get_sound :: "'chan \<Rightarrow> 'v"
  get_volume :: "'chan \<Rightarrow> 'v"

definition get_channel_info ::
  "('chan, 'v) channel_getters \<Rightarrow> 'chan option \<Rightarrow> ('chan, 'snd) sound_engine \<Rightarrow>
   (string \<rightharpoonup> 'v) \<times> ('chan, 'snd) sound_engine" where
  "get_channel_info g found s =
    (case get_channel found s of
       (None, s1) \<Rightarrow> (Map.empty, s1)
     | (Some ch, s1) \<Rightarrow>
        (Map.empty(''busy'' \<mapsto> get_busy g ch,
                   ''endevent'' \<mapsto> get_endevent g ch,
                   ''queue'' \<mapsto> get_queue g ch,
                   ''sound'' \<mapsto> get_sound g ch,
                   ''volume'' \<mapsto> get_volume g ch), s1))"

section \<open>The validation helpers (\<open>pygame_menu/utils.py\<close>)\<close>

text \<open>\<open>isinstance(color, (tuple, list))\<close>, giving the items.\<close>

definition tuple_or_list :: "pyval \<Rightarrow> pyval list option" where
  "tuple_or_list v = (case v of PyTuple xs \<Rightarrow> Some xs | PyList xs \<Rightarrow> Some xs | _ \<Rightarrow> None)"

text \<open>\<open>0 <= x <= 255\<close>.\<close>

definition in_byte_range :: "pyval \<Rightarrow> bool" where
  "in_byte_range x = (py_ge_int x 0 \<and> py_int_ge 255 x)"

text \<open>The loop \<open>for i in range(3)\<close>, over the indices still to visit.\<close>

fun assert_color_loop :: "pyval list \<Rightarrow> nat list \<Rightarrow> py_error + unit" where
  "assert_color_loop color [] = Inr ()"
| "assert_color_loop color (i # rest) =
    (if \<not> isinstance_int (color ! i) then Inl (AssertionError ''isinstance(color[i], int)'')
     else if \<not> in_byte_range (color ! i) then Inl (AssertionError ''0 <= color[i] <= 255'')
     else assert_color_loop color rest)"

text \<open>
  \<open>assert_color\<close>.  The indices read are below the length, which the second assertion
  has bounded from below by 3 (and the alpha item is read only when the length is 4).
\<close>

definition assert_color :: "pyval \<Rightarrow> py_error + unit" where
  "assert_color v =
    (case tuple_or_list v of
       None \<Rightarrow> Inl (AssertionError ''isinstance(color, (tuple, list))'')
     | Some color \<Rightarrow>
        (if \<not> (4 \<ge> length color \<and> length color \<ge> 3)
         then Inl (AssertionError ''4 >= len(color) >= 3'')
         else case assert_color_loop color [0, 1, 2] of
           Inl e \<Rightarrow> Inl e
         | Inr u \<Rightarrow>
            (if length color = 4
             then (if \<not> isinstance_int (color ! 3)
                   then Inl (AssertionError ''isinstance(color[3], int)'')
                   else if \<not> in_byte_range (color ! 3)
                   then Inl (AssertionError ''0 <= color[3] <= 255'')
                   else Inr ())
             else Inr ())))"

section \<open>Vocabulary of the properties\<close>

text \<open>An outcome that is an \<open>AssertionError\<close>, whichever assertion failed.\<close>

definition assertion_error :: "py_error + 'a \<Rightarrow> bool" where
  "assertion_error r = (case r of Inl (AssertionError failed) \<Rightarrow> True | _ \<Rightarrow> False)"

text \<open>A negative number, and a float outside \<open>[0, 1]\<close> (a NaN counts as outside).\<close>

definition py_negative :: "pyval \<Rightarrow> bool" where
  "py_negative v = (case v of PyInt n \<Rightarrow> n < 0
                     | PyFloat x \<Rightarrow> (case x of Fin q \<Rightarrow> q < 0 | NegInf \<Rightarrow> True | _ \<Rightarrow> False)
                     | _ \<Rightarrow> False)"

definition volume_out_of_range :: "pyfloat \<Rightarrow> bool" where
  "volume_out_of_range x = (case x of Fin q \<Rightarrow> q < 0 \<or> 1 < q | _ \<Rightarrow> True)"

text \<open>
  The colours the specification accepts: a tuple or list of 3 or 4 items, each an
  integer between 0 and 255.
\<close>

definition color_channel_ok :: "pyval \<Rightarrow> bool" where
  "color_channel_ok x = (case x of PyInt n \<Rightarrow> 0 \<le> n \<and> n \<le> 255 | _ \<Rightarrow> False)"

definition color_accepted :: "pyval \<Rightarrow> bool" where
  "color_accepted v =
     (case tuple_or_list v of
        None \<Rightarrow> False
      | Some xs \<Rightarrow> (length xs = 3 \<or> length xs = 4) \<and> list_all color_channel_ok xs)"

text \<open>The number of \<open>channel.play\<close> calls in the results of \<open>play_sound_calls\<close>.\<close>

definition play_count :: "('r \<times> ('chan, 'snd) channel_call list) list \<Rightarrow> nat" where
  "play_count results = length (filter is_play (concat (map snd results)))"

text \<open>An outcome of \<open>channel.play\<close> that the \<open>except\<close> clause of \<open>_play_sound\<close> lets through.\<close>

definition escapes :: "play_outcome \<Rightarrow> bool" where
  "escapes outcome = (case outcome of Play_raises e \<Rightarrow> True | _ \<Rightarrow> False)"

text \<open>
  Concrete data for the examples: the dict \<open>set_sound\<close> stores for a sound of 1.0
  second with the default parameters, and the one it stores with \<open>maxtime=1.5\<close>; an
  environment with a decodable file, a file that does not decode and no other file; and
  the getters of an idle channel.
\<close>

definition example_dict :: "string \<Rightarrow> nat sound_dict" where
  "example_dict k =
    \<lparr> d_file = 0, d_path = ''event.ogg'', d_type = k, d_length = Fin 1,
      d_volume = PyFloat (Fin (1 / 2)), d_loops = PyInt 0, d_maxtime = PyInt 0,
      d_fade_ms = PyInt 0 \<rparr>"


definition example_env :: "nat mixer_env" where
  "example_env =
    \<lparr> isfile = (\<lambda>f. f = ''event.ogg'' \<or> f = ''broken.ogg''),
      mixer_Sound = (\<lambda>f. if f = ''event.ogg'' then Some 0 else None),
      set_volume = (\<lambda>loaded v. loaded),
      get_length = (\<lambda>loaded. Fin 1) \<rparr>"

definition example_getters :: "(nat, pyval) channel_getters" where
  "example_getters =
    \<lparr> get_busy = (\<lambda>c. PyInt 0), get_endevent = (\<lambda>c. PyInt 0), get_queue = (\<lambda>c. PyNone),
      get_sound = (\<lambda>c. PyNone), get_volume = (\<lambda>c. PyFloat (Fin 1)) \<rparr>"

section \<open>Properties of the float operations\<close>

text \<open>
  The exponent brackets its argument between two consecutive powers of two, and a
  finite result of \<open>round64\<close> lies within half a unit in the last place of its argument.
\<close>

lemma pow2_pos: "0 < pow2 e"
  by (simp add: pow2_def)

lemma pow2_nat: "pow2 (int n) = 2 ^ n"
  by (simp add: pow2_def)

lemma pow2_neg_nat: "pow2 (- int n) = 1 / 2 ^ n"
  by (cases n) (simp_all add: pow2_def nat_add_distrib)

lemma round_half_even_near: "\<bar>x - of_int (round_half_even x)\<bar> \<le> 1 / 2"
proof -
  define n where "n = \<lfloor>x\<rfloor>"
  define r where "r = x - of_int n"
  have r: "0 \<le> r" "r < 1" unfolding r_def n_def by linarith+
  have x: "x = of_int n + r" by (simp add: r_def)
  have res: "round_half_even x =
      (if r < 1 / 2 then n else if 1 / 2 < r then n + 1 else if even n then n else n + 1)"
    by (simp add: round_half_even_def Let_def n_def r_def)
  consider "round_half_even x = n" "r \<le> 1 / 2" | "round_half_even x = n + 1" "1 / 2 \<le> r"
    unfolding res by (cases "r < 1 / 2"; cases "1 / 2 < r"; cases "even n") auto
  then show ?thesis
  proof cases
    case 1
    then show ?thesis using r by (simp add: x)
  next
    case 2
    then show ?thesis using r by (simp add: x)
  qed
qed

lemma floorlog_2_bounds:
  assumes "0 < n"
  shows "(2::nat) ^ (floorlog 2 n - 1) \<le> n" and "n < 2 ^ floorlog 2 n" and "0 < floorlog 2 n"
proof -
  have "(2::nat) ^ (floorlog 2 n - 1) \<le> n \<and> n < 2 ^ floorlog 2 n"
    by (rule floorlog_bounds) (use assms in simp_all)
  then show "(2::nat) ^ (floorlog 2 n - 1) \<le> n" "n < 2 ^ floorlog 2 n"
    by simp_all
  show "0 < floorlog 2 n"
    by (subst compute_floorlog) (use assms in simp)
qed

lemma ilog2_bounds:
  assumes "0 < q"
  shows "pow2 (ilog2 q) \<le> q \<and> q < pow2 (ilog2 q + 1)"
proof (cases "1 \<le> q")
  case True
  define n where "n = nat \<lfloor>q\<rfloor>"
  define L where "L = floorlog 2 n"
  have fl: "1 \<le> \<lfloor>q\<rfloor>" using True by linarith
  then have n: "0 < n" by (simp add: n_def)
  have "rat_of_nat n = of_int \<lfloor>q\<rfloor>" using fl by (simp add: n_def)
  then have nq: "rat_of_nat n \<le> q" and qn: "q < rat_of_nat n + 1"
    by linarith+
  have L: "2 ^ (L - 1) \<le> n" "n < 2 ^ L" "0 < L"
    using floorlog_2_bounds [OF n] by (simp_all add: L_def)
  have e: "ilog2 q = int (L - 1)"
    using True L(3) by (simp add: ilog2_def n_def L_def)
  have "(2::rat) ^ (L - 1) = rat_of_nat (2 ^ (L - 1))" by simp
  also have "\<dots> \<le> rat_of_nat n" using L(1) by (rule of_nat_mono)
  also have "\<dots> \<le> q" by (rule nq)
  finally have lo: "pow2 (ilog2 q) \<le> q" by (simp add: e pow2_nat)
  have "Suc n \<le> 2 ^ L" using L(2) by simp
  then have "rat_of_nat (Suc n) \<le> rat_of_nat (2 ^ L)" by (rule of_nat_mono)
  then have "rat_of_nat n + 1 \<le> 2 ^ L" by simp
  with qn have "q < 2 ^ L" by (rule less_le_trans)
  moreover have "ilog2 q + 1 = int L" using e L(3) by simp
  ultimately have hi: "q < pow2 (ilog2 q + 1)" by (simp add: pow2_nat)
  show ?thesis using lo hi by simp
next
  case False
  define k where "k = \<lceil>1 / q\<rceil>"
  define m where "m = nat (k - 1)"
  define L where "L = floorlog 2 m"
  have inv: "1 < 1 / q" using assms False by simp
  have k: "rat_of_int k - 1 < 1 / q" "1 / q \<le> rat_of_int k" unfolding k_def by linarith+
  have "1 < rat_of_int k" using inv k(2) by (rule less_le_trans)
  then have k2: "2 \<le> k" by linarith
  then have m: "0 < m" by (simp add: m_def)
  have "rat_of_nat m = rat_of_int (k - 1)" using k2 by (simp add: m_def)
  then have mk: "rat_of_nat m = rat_of_int k - 1" by simp
  have L: "2 ^ (L - 1) \<le> m" "m < 2 ^ L" "0 < L"
    using floorlog_2_bounds [OF m] by (simp_all add: L_def)
  have e: "ilog2 q = - int L"
    using False by (simp add: ilog2_def k_def m_def L_def)
  have "Suc m \<le> 2 ^ L" using L(2) by simp
  then have "rat_of_nat (Suc m) \<le> rat_of_nat (2 ^ L)" by (rule of_nat_mono)
  then have "rat_of_nat m + 1 \<le> 2 ^ L" by simp
  then have "1 / q \<le> 2 ^ L" using k(2) mk by linarith
  then have "1 \<le> 2 ^ L * q" using assms by (simp add: pos_divide_le_eq)
  then have "1 / 2 ^ L \<le> q" by (simp add: pos_divide_le_eq mult.commute)
  then have lo: "pow2 (ilog2 q) \<le> q" by (simp add: e pow2_neg_nat)
  have "(2::rat) ^ (L - 1) = rat_of_nat (2 ^ (L - 1))" by simp
  also have "\<dots> \<le> rat_of_nat m" using L(1) by (rule of_nat_mono)
  also have "\<dots> < 1 / q" using k(1) mk by simp
  finally have "2 ^ (L - 1) * q < 1" using assms by (simp add: pos_less_divide_eq)
  then have "q < 1 / 2 ^ (L - 1)" by (simp add: pos_less_divide_eq mult.commute)
  moreover have "ilog2 q + 1 = - int (L - 1)" using e L(3) by simp
  ultimately have hi: "q < pow2 (ilog2 q + 1)" by (simp add: pow2_neg_nat)
  show ?thesis using lo hi by simp
qed

lemma round64_near:
  assumes "round64 q = Fin r"
  shows "\<bar>q - r\<bar> \<le> pow2 (max (ilog2 \<bar>q\<bar>) (- 1022) - 52) / 2"
proof (cases "q = 0")
  case True
  then have "r = 0" using assms by (simp add: round64_def)
  then show ?thesis using True pow2_pos [of "max (ilog2 \<bar>q\<bar>) (- 1022) - 52"] by simp
next
  case False
  define ulp where "ulp = pow2 (max (ilog2 \<bar>q\<bar>) (- 1022) - 52)"
  have pos: "0 < ulp" unfolding ulp_def by (rule pow2_pos)
  have r: "r = of_int (round_half_even (q / ulp)) * ulp"
    using assms False by (simp add: round64_def Let_def ulp_def split: if_splits)
  have "q - r = (q / ulp - of_int (round_half_even (q / ulp))) * ulp"
    using pos by (simp add: r left_diff_distrib)
  then have "\<bar>q - r\<bar> = \<bar>q / ulp - of_int (round_half_even (q / ulp))\<bar> * ulp"
    using pos by (simp add: abs_mult)
  also have "\<dots> \<le> (1 / 2) * ulp"
    using round_half_even_near [of "q / ulp"] pos by (rule mult_right_mono [OF _ less_imp_le])
  finally show ?thesis by (simp add: ulp_def)
qed

section \<open>Properties of the sound engine\<close>

subsection \<open>The constructor\<close>

lemma Sound_init_fields:
  "channel (Sound_init u) = None"
  "last_play (Sound_init u) = []"
  "last_time (Sound_init u) = Fin 0"
  "uniquechannel (Sound_init u) = u"
  by (simp_all add: Sound_init_def)

lemma fold_upd_lookup:
  "fold (\<lambda>k m. m(k \<mapsto> v)) ks m0 k = (if k \<in> set ks then Some v else m0 k)"
  by (induction ks arbitrary: m0) simp_all

lemma Sound_init_sound:
  "sound (Sound_init u) k = (if k \<in> set type_sounds then Some None else None)"
  by (simp add: Sound_init_def fold_upd_lookup)

subsection \<open>Channel acquisition\<close>

lemma get_channel_unique_cached:
  "uniquechannel s \<Longrightarrow> channel s = Some c \<Longrightarrow> get_channel found s = (Some c, s)"
  by (simp add: get_channel_def)

lemma get_channel_unique_empty:
  "uniquechannel s \<Longrightarrow> channel s = None \<Longrightarrow> get_channel found s = (found, s\<lparr>channel := found\<rparr>)"
  by (simp add: get_channel_def)

lemma get_channel_shared:
  "\<not> uniquechannel s \<Longrightarrow> get_channel found s = (found, s\<lparr>channel := found\<rparr>)"
  by (simp add: get_channel_def)

lemma get_channel_calls_step:
  "fst (get_channel_calls (f # fs) s) =
     fst (get_channel f s) # fst (get_channel_calls fs (snd (get_channel f s)))"
  by (simp split: prod.splits)

lemma get_channel_calls_length: "length (fst (get_channel_calls fs s)) = length fs"
proof (induction fs arbitrary: s)
  case Nil
  show ?case by simp
next
  case (Cons f fs)
  show ?case unfolding get_channel_calls_step by (simp add: Cons.IH)
qed

lemma get_channel_calls_shared:
  "\<not> uniquechannel s \<Longrightarrow> fst (get_channel_calls fs s) = fs"
proof (induction fs arbitrary: s)
  case Nil
  show ?case by simp
next
  case (Cons f fs)
  have "\<not> uniquechannel (s\<lparr>channel := f\<rparr>)" using Cons.prems by simp
  then have "fst (get_channel_calls fs (s\<lparr>channel := f\<rparr>)) = fs" by (rule Cons.IH)
  then show ?case unfolding get_channel_calls_step
    by (simp add: get_channel_shared [OF Cons.prems])
qed

lemma get_channel_calls_cached:
  "uniquechannel s \<Longrightarrow> channel s = Some c \<Longrightarrow> i < length fs \<Longrightarrow>
   fst (get_channel_calls fs s) ! i = Some c"
proof (induction fs arbitrary: i)
  case Nil
  then show ?case by simp
next
  case (Cons f fs)
  have step: "get_channel f s = (Some c, s)"
    using Cons.prems by (simp add: get_channel_unique_cached)
  show ?case
  proof (cases i)
    case 0
    show ?thesis unfolding get_channel_calls_step step 0 by simp
  next
    case (Suc j)
    then have "fst (get_channel_calls fs s) ! j = Some c"
      using Cons by simp
    then show ?thesis unfolding get_channel_calls_step step Suc by simp
  qed
qed

lemma get_channel_calls_unique:
  "uniquechannel s \<Longrightarrow> channel s = None \<Longrightarrow> i < length fs \<Longrightarrow>
   fst (get_channel_calls fs s) ! i = first_found (take (Suc i) fs)"
proof (induction fs arbitrary: s i)
  case Nil
  then show ?case by simp
next
  case (Cons f fs)
  show ?case
  proof (cases f)
    case None
    have step: "get_channel f s = (None, s)"
      using Cons.prems None by (simp add: get_channel_def)
    show ?thesis
    proof (cases i)
      case 0
      show ?thesis unfolding get_channel_calls_step step 0 using None by simp
    next
      case (Suc j)
      then have "fst (get_channel_calls fs s) ! j = first_found (take (Suc j) fs)"
        using Cons by simp
      then show ?thesis unfolding get_channel_calls_step step Suc using None by simp
    qed
  next
    case (Some c)
    let ?s1 = "s\<lparr>channel := Some c\<rparr>"
    have step: "get_channel f s = (Some c, ?s1)"
      using Cons.prems Some by (simp add: get_channel_def)
    show ?thesis
    proof (cases i)
      case 0
      show ?thesis unfolding get_channel_calls_step step 0 using Some by simp
    next
      case (Suc j)
      have "uniquechannel ?s1" "channel ?s1 = Some c" "j < length fs"
        using Cons.prems Suc by simp_all
      then have "fst (get_channel_calls fs ?s1) ! j = Some c"
        by (rule get_channel_calls_cached)
      then show ?thesis unfolding get_channel_calls_step step Suc using Some by simp
    qed
  qed
qed


lemma first_found_take_mono:
  "first_found (take m fs) = Some c \<Longrightarrow> m \<le> n \<Longrightarrow> first_found (take n fs) = Some c"
proof (induction fs arbitrary: m n)
  case Nil
  then show ?case by simp
next
  case (Cons f fs)
  from Cons.prems obtain m' where m: "m = Suc m'" by (cases m) auto
  with Cons.prems obtain n' where n: "n = Suc n'" by (cases n) auto
  show ?case
  proof (cases f)
    case None
    have "first_found (take m' fs) = Some c" using Cons.prems(1) m None by simp
    moreover have "m' \<le> n'" using Cons.prems(2) m n by simp
    ultimately have "first_found (take n' fs) = Some c" by (rule Cons.IH)
    then show ?thesis using n None by simp
  next
    case (Some c')
    then show ?thesis using Cons.prems(1) m n by simp
  qed
qed

text \<open>
  Claim C4.  With \<open>uniquechannel\<close> set, successive calls of \<open>get_channel\<close> return the
  cached channel if there is one, and otherwise the first channel the mixer has returned
  so far; once a call has returned a channel, every later call returns that same channel,
  whatever the mixer answers.  Without \<open>uniquechannel\<close>, each call returns what the
  mixer answered at that call.
\<close>

theorem get_channel_pins_first_channel:
  "(uniquechannel s \<and> i < length fs \<longrightarrow>
      fst (get_channel_calls fs s) ! i =
        (case channel s of Some c \<Rightarrow> Some c | None \<Rightarrow> first_found (take (Suc i) fs))) \<and>
   (uniquechannel s \<and> i \<le> j \<and> j < length fs \<and> fst (get_channel_calls fs s) ! i = Some c \<longrightarrow>
      fst (get_channel_calls fs s) ! j = Some c) \<and>
   (\<not> uniquechannel s \<longrightarrow> fst (get_channel_calls fs s) = fs) \<and>
   length (fst (get_channel_calls fs s)) = length fs"
proof -
  have pin: "fst (get_channel_calls fs s) ! k =
        (case channel s of Some c \<Rightarrow> Some c | None \<Rightarrow> first_found (take (Suc k) fs))"
    if "uniquechannel s" "k < length fs" for k
  proof (cases "channel s")
    case None
    then show ?thesis using that by (simp add: get_channel_calls_unique)
  next
    case (Some c')
    then show ?thesis using that by (simp add: get_channel_calls_cached)
  qed
  have later: "fst (get_channel_calls fs s) ! j = Some c"
    if u: "uniquechannel s" and ij: "i \<le> j" "j < length fs"
      and r: "fst (get_channel_calls fs s) ! i = Some c"
  proof (cases "channel s")
    case None
    have "i < length fs" using ij by simp
    then have "first_found (take (Suc i) fs) = Some c"
      using r pin [of i] u None by simp
    moreover have "Suc i \<le> Suc j" using ij by simp
    ultimately have "first_found (take (Suc j) fs) = Some c"
      by (rule first_found_take_mono)
    then show ?thesis using pin [of j] u ij None by simp
  next
    case (Some c')
    have "i < length fs" using ij by simp
    then have "c' = c" using pin [of i] u r Some by simp
    then show ?thesis using pin [of j] u ij Some by simp
  qed
  show ?thesis
  proof (intro conjI impI)
    show "fst (get_channel_calls fs s) ! i =
        (case channel s of Some c \<Rightarrow> Some c | None \<Rightarrow> first_found (take (Suc i) fs))"
      if "uniquechannel s \<and> i < length fs"
      using that pin [of i] by simp
    show "fst (get_channel_calls fs s) ! j = Some c"
      if "uniquechannel s \<and> i \<le> j \<and> j < length fs \<and> fst (get_channel_calls fs s) ! i = Some c"
      using that later by simp
    show "fst (get_channel_calls fs s) = fs" if "\<not> uniquechannel s"
      using that by (rule get_channel_calls_shared)
    show "length (fst (get_channel_calls fs s)) = length fs"
      by (rule get_channel_calls_length)
  qed
qed

theorem get_channel_pins_first_channel_witness:
  "uniquechannel (Sound_init True :: (nat, nat) sound_engine) \<and> (1::nat) \<le> 2 \<and>
   (2::nat) < length [None, Some (7::nat), Some 9] \<and>
   fst (get_channel_calls [None, Some (7::nat), Some 9] (Sound_init True :: (nat, nat) sound_engine)) ! 1
     = Some 7 \<and>
   fst (get_channel_calls [None, Some (7::nat), Some 9] (Sound_init True :: (nat, nat) sound_engine)) ! 2
     = Some 7 \<and>
   \<not> uniquechannel (Sound_init False :: (nat, nat) sound_engine) \<and>
   fst (get_channel_calls [None, Some (7::nat), Some 9] (Sound_init False :: (nat, nat) sound_engine))
     = [None, Some 7, Some 9]"
  using get_channel_pins_first_channel
    [of "Sound_init True :: (nat, nat) sound_engine" 1 "[None, Some (7::nat), Some 9]" 2 7]
    get_channel_pins_first_channel
    [of "Sound_init False :: (nat, nat) sound_engine" 1 "[None, Some (7::nat), Some 9]" 2 7]
  by (simp add: Sound_init_fields)

subsection \<open>Playing a sound\<close>

lemma get_channel_keeps:
  "last_play (snd (get_channel found s)) = last_play s"
  "last_time (snd (get_channel found s)) = last_time s"
  "uniquechannel (snd (get_channel found s)) = uniquechannel s"
  "sound (snd (get_channel found s)) = sound s"
  by (simp_all add: get_channel_def)

lemma escapes_simps:
  "escapes Play_returns = False"
  "escapes Play_pygame_error = False"
  "escapes (Play_raises e) = True"
  by (simp_all add: escapes_def)




lemma play_sound_played:
  assumes "fst (get_channel found s) = Some ch"
    and "overlap_gate d now (snd (get_channel found s))"
    and "\<not> escapes outcome"
  shows "play_sound found now outcome (Some d) s =
     (Inr True,
      (if uniquechannel s then [Channel_stop ch] else []) @
        [Channel_play ch (d_file d) (d_loops d) (d_maxtime d) (d_fade_ms d)],
      (snd (get_channel found s))\<lparr>last_play := d_type d, last_time := now\<rparr>)"
proof -
  obtain r s1 where g: "get_channel found s = (r, s1)" by (cases "get_channel found s")
  with assms have r: "r = Some ch" and n: "overlap_gate d now s1" by simp_all
  have u: "uniquechannel s1 = uniquechannel s"
    using get_channel_keeps(3) [of found s] g by simp
  show ?thesis
    using assms(3) unfolding play_sound_def g r
    by (cases outcome) (simp_all add: Let_def n u escapes_simps)
qed

lemma play_sound_escapes:
  assumes "fst (get_channel found s) = Some ch"
    and "overlap_gate d now (snd (get_channel found s))"
  shows "play_sound found now (Play_raises e) (Some d) s =
     (Inl e,
      (if uniquechannel s then [Channel_stop ch] else []) @
        [Channel_play ch (d_file d) (d_loops d) (d_maxtime d) (d_fade_ms d)],
      snd (get_channel found s))"
proof -
  obtain r s1 where g: "get_channel found s = (r, s1)" by (cases "get_channel found s")
  with assms have r: "r = Some ch" and n: "overlap_gate d now s1" by simp_all
  have u: "uniquechannel s1 = uniquechannel s"
    using get_channel_keeps(3) [of found s] g by simp
  show ?thesis unfolding play_sound_def g r by (simp add: Let_def n u)
qed

lemma play_sound_shared:
  "\<not> uniquechannel s \<Longrightarrow> \<not> escapes outcome \<Longrightarrow>
   play_sound (Some ch) now outcome (Some d) s =
     (Inr True,
      (if d_type d \<noteq> last_play s \<or>
          fl_ge (fl_sub now (last_time s)) (fl_mul (py_float (1 / 5)) (d_length d))
       then [Channel_play ch (d_file d) (d_loops d) (d_maxtime d) (d_fade_ms d)] else []),
      s\<lparr>channel := Some ch, last_play := d_type d, last_time := now\<rparr>)"
  by (cases outcome)
    (simp_all add: play_sound_def get_channel_def overlap_gate_def Let_def escapes_simps)

lemma play_sound_calls_step:
  "play_sound_calls ((found, now, outcome) # rest) sound_arg s =
    ((fst (play_sound found now outcome sound_arg s),
      fst (snd (play_sound found now outcome sound_arg s))) #
       fst (play_sound_calls rest sound_arg (snd (snd (play_sound found now outcome sound_arg s)))),
     snd (play_sound_calls rest sound_arg (snd (snd (play_sound found now outcome sound_arg s)))))"
  by (simp split: prod.splits)

lemma type_sounds_not_empty: "k \<in> set type_sounds \<Longrightarrow> k \<noteq> []"
  by (auto simp: type_sounds_def SOUND_TYPE_CLICK_MOUSE_def SOUND_TYPE_CLOSE_MENU_def
      SOUND_TYPE_ERROR_def SOUND_TYPE_EVENT_def SOUND_TYPE_EVENT_ERROR_def
      SOUND_TYPE_KEY_ADDITION_def SOUND_TYPE_KEY_DELETION_def SOUND_TYPE_OPEN_MENU_def
      SOUND_TYPE_WIDGET_SELECTION_def)

lemma event_is_type_sound: "SOUND_TYPE_EVENT \<in> set type_sounds"
  by (simp add: type_sounds_def)

lemma event_not_click_mouse: "SOUND_TYPE_CLICK_MOUSE \<noteq> SOUND_TYPE_EVENT"
  by (simp add: SOUND_TYPE_CLICK_MOUSE_def SOUND_TYPE_EVENT_def)

lemma example_dict_fields:
  "d_file (example_dict k) = 0"
  "d_type (example_dict k) = k"
  "d_length (example_dict k) = Fin 1"
  "d_loops (example_dict k) = PyInt 0"
  "d_maxtime (example_dict k) = PyInt 0"
  "d_fade_ms (example_dict k) = PyInt 0"
  by (simp_all add: example_dict_def)

text \<open>
  The binary64 values of the clock readings and of the two sides of the comparison
  \<open>soundtime - self._last_time >= 0.2 * sound['length']\<close> for a sound of 1.0 second.
  \<open>0.3 - 0.1\<close> is \<open>7205759403792793 / 2^55\<close> (printed by Python as
  \<open>0.19999999999999998\<close>), one unit in the last place below \<open>0.2 * 1.0\<close>, which is
  \<open>7205759403792794 / 2^55\<close>.
\<close>

lemma float_0: "py_float 0 = Fin 0"
  by (simp add: py_float_def round64_def)

lemma threshold_1s:
  "fl_mul (py_float (1 / 5)) (Fin 1) = Fin (7205759403792794 / 36028797018963968)"
  by code_simp

lemma elapsed_0_1:
  "fl_sub (py_float (1 / 10)) (Fin 0) = Fin (3602879701896397 / 36028797018963968)"
  by code_simp

lemma elapsed_0_3:
  "fl_sub (py_float (3 / 10)) (py_float (1 / 10)) = Fin (7205759403792793 / 36028797018963968)"
  by code_simp

lemma elapsed_0_4:
  "fl_sub (py_float (2 / 5)) (py_float (1 / 10)) = Fin (10808639105689192 / 36028797018963968)"
  by code_simp

lemma gate_0_1:
  "fl_ge (fl_sub (py_float (1 / 10)) (py_float 0)) (fl_mul (py_float (1 / 5)) (Fin 1)) = False"
  by (simp add: float_0 elapsed_0_1 threshold_1s)

lemma gate_0_3:
  "fl_ge (fl_sub (py_float (3 / 10)) (py_float (1 / 10))) (fl_mul (py_float (1 / 5)) (Fin 1)) = False"
  by (simp add: elapsed_0_3 threshold_1s)

lemma gate_0_4:
  "fl_ge (fl_sub (py_float (2 / 5)) (py_float (1 / 10))) (fl_mul (py_float (1 / 5)) (Fin 1)) = True"
  by (simp add: elapsed_0_4 threshold_1s)

text \<open>
  Claim C1, as stated, at a concrete input: a sound of 1.0 second bound to the event
  type, no unique channel, a channel available at each call, \<open>channel.play\<close> returning
  whenever it is called, and \<open>_play_sound\<close> called with the clock at 0, 0.1 and 0.3.
  The number of \<open>channel.play\<close> calls is one, not two: the third call is suppressed as
  well, because \<open>0.3 - 0.1 >= 0.2 * 1.0\<close> is false in float arithmetic.
\<close>

theorem overlap_example_counterexample:
  "play_count (fst (play_sound_calls
      [(Some 0, py_float 0, Play_returns), (Some 0, py_float (1 / 10), Play_returns),
       (Some 0, py_float (3 / 10), Play_returns)]
      (Some (example_dict SOUND_TYPE_EVENT)) (Sound_init False :: (nat, nat) sound_engine))) = 1 \<and>
   play_count (fst (play_sound_calls
      [(Some 0, py_float 0, Play_returns), (Some 0, py_float (1 / 10), Play_returns),
       (Some 0, py_float (3 / 10), Play_returns)]
      (Some (example_dict SOUND_TYPE_EVENT)) (Sound_init False :: (nat, nat) sound_engine))) \<noteq> 2"
  unfolding play_sound_calls_step
  by (simp add: play_sound_shared escapes_simps Sound_init_def example_dict_def
      SOUND_TYPE_EVENT_def gate_0_1 gate_0_3 play_count_def)

text \<open>
  Claim C1, amended.  For a sound bound to one of the nine sound types, without unique
  channel, with a channel available at each call and with \<open>channel.play\<close> returning or
  raising \<open>pygame.error\<close> whenever it is called, three calls of \<open>_play_sound\<close> at
  clock readings \<open>t1\<close>, \<open>t2\<close>, \<open>t3\<close> on a new object each return true and behave as
  follows: the first plays; the second plays exactly when \<open>t2 - t1 >= 0.2 * length\<close>;
  the third plays exactly when \<open>t3 - t2 >= 0.2 * length\<close>, whether or not the second
  was suppressed, since a suppressed call sets \<open>_last_time\<close> too.  For a sound of 1.0
  second and the readings 0, 0.1 and 0.3 this gives exactly one \<open>channel.play\<close> call,
  at the first reading: the call at 0.1 is suppressed and sets \<open>_last_time\<close> to 0.1,
  and the call at 0.3 is suppressed too.  With the third call at 0.4 instead, the first
  and the third call play.
\<close>

theorem overlap_example_binary64:
  "d_type d \<in> set type_sounds \<and> \<not> escapes o1 \<and> \<not> escapes o2 \<and> \<not> escapes o3 \<longrightarrow>
     fst (play_sound_calls [(Some c1, t1, o1), (Some c2, t2, o2), (Some c3, t3, o3)]
            (Some d) (Sound_init False)) =
       [(Inr True, [Channel_play c1 (d_file d) (d_loops d) (d_maxtime d) (d_fade_ms d)]),
        (Inr True, if fl_ge (fl_sub t2 t1) (fl_mul (py_float (1 / 5)) (d_length d))
               then [Channel_play c2 (d_file d) (d_loops d) (d_maxtime d) (d_fade_ms d)]
               else []),
        (Inr True, if fl_ge (fl_sub t3 t2) (fl_mul (py_float (1 / 5)) (d_length d))
               then [Channel_play c3 (d_file d) (d_loops d) (d_maxtime d) (d_fade_ms d)]
               else [])] \<and>
     (d_length d = Fin 1 \<longrightarrow>
        fst (play_sound_calls
               [(Some c1, py_float 0, o1), (Some c2, py_float (1 / 10), o2),
                (Some c3, py_float (3 / 10), o3)]
               (Some d) (Sound_init False)) =
          [(Inr True, [Channel_play c1 (d_file d) (d_loops d) (d_maxtime d) (d_fade_ms d)]),
           (Inr True, []), (Inr True, [])] \<and>
        last_time (snd (play_sound_calls
               [(Some c1, py_float 0, o1), (Some c2, py_float (1 / 10), o2)]
               (Some d) (Sound_init False))) = py_float (1 / 10) \<and>
        fst (play_sound_calls
               [(Some c1, py_float 0, o1), (Some c2, py_float (1 / 10), o2),
                (Some c3, py_float (2 / 5), o3)]
               (Some d) (Sound_init False)) =
          [(Inr True, [Channel_play c1 (d_file d) (d_loops d) (d_maxtime d) (d_fade_ms d)]),
           (Inr True, []),
           (Inr True, [Channel_play c3 (d_file d) (d_loops d) (d_maxtime d) (d_fade_ms d)])])"
proof (intro impI conjI; elim conjE)
  assume k: "d_type d \<in> set type_sounds"
    and o: "\<not> escapes o1" "\<not> escapes o2" "\<not> escapes o3"
  from k have ne: "d_type d \<noteq> []" by (rule type_sounds_not_empty)
  show "fst (play_sound_calls [(Some c1, t1, o1), (Some c2, t2, o2), (Some c3, t3, o3)]
            (Some d) (Sound_init False)) =
       [(Inr True, [Channel_play c1 (d_file d) (d_loops d) (d_maxtime d) (d_fade_ms d)]),
        (Inr True, if fl_ge (fl_sub t2 t1) (fl_mul (py_float (1 / 5)) (d_length d))
               then [Channel_play c2 (d_file d) (d_loops d) (d_maxtime d) (d_fade_ms d)]
               else []),
        (Inr True, if fl_ge (fl_sub t3 t2) (fl_mul (py_float (1 / 5)) (d_length d))
               then [Channel_play c3 (d_file d) (d_loops d) (d_maxtime d) (d_fade_ms d)]
               else [])]"
    unfolding play_sound_calls_step
    by (simp add: play_sound_shared o Sound_init_def ne)
  assume len: "d_length d = Fin 1"
  show "fst (play_sound_calls
            [(Some c1, py_float 0, o1), (Some c2, py_float (1 / 10), o2),
             (Some c3, py_float (3 / 10), o3)]
            (Some d) (Sound_init False)) =
       [(Inr True, [Channel_play c1 (d_file d) (d_loops d) (d_maxtime d) (d_fade_ms d)]),
        (Inr True, []), (Inr True, [])]"
    unfolding play_sound_calls_step
    by (simp add: play_sound_shared o Sound_init_def ne len gate_0_1 gate_0_3)
  show "last_time (snd (play_sound_calls
            [(Some c1, py_float 0, o1), (Some c2, py_float (1 / 10), o2)]
            (Some d) (Sound_init False))) = py_float (1 / 10)"
    unfolding play_sound_calls_step
    by (simp add: play_sound_shared o Sound_init_def)
  show "fst (play_sound_calls
            [(Some c1, py_float 0, o1), (Some c2, py_float (1 / 10), o2),
             (Some c3, py_float (2 / 5), o3)]
            (Some d) (Sound_init False)) =
       [(Inr True, [Channel_play c1 (d_file d) (d_loops d) (d_maxtime d) (d_fade_ms d)]),
        (Inr True, []),
        (Inr True, [Channel_play c3 (d_file d) (d_loops d) (d_maxtime d) (d_fade_ms d)])]"
    unfolding play_sound_calls_step
    by (simp add: play_sound_shared o Sound_init_def ne len gate_0_1 gate_0_4)
qed

theorem overlap_example_binary64_witness:
  "d_type (example_dict SOUND_TYPE_EVENT) \<in> set type_sounds \<and>
   d_length (example_dict SOUND_TYPE_EVENT) = Fin 1 \<and>
   \<not> escapes Play_returns \<and> \<not> escapes Play_pygame_error \<and>
   fst (play_sound_calls
          [(Some 5, py_float 0, Play_returns), (Some 6, py_float (1 / 10), Play_pygame_error),
           (Some 7, py_float (3 / 10), Play_returns)]
          (Some (example_dict SOUND_TYPE_EVENT)) (Sound_init False :: (nat, nat) sound_engine)) =
     [(Inr True, [Channel_play 5 0 (PyInt 0) (PyInt 0) (PyInt 0)]), (Inr True, []),
      (Inr True, [])] \<and>
   fst (play_sound_calls
          [(Some 5, py_float 0, Play_returns), (Some 6, py_float (1 / 10), Play_pygame_error),
           (Some 7, py_float (2 / 5), Play_returns)]
          (Some (example_dict SOUND_TYPE_EVENT)) (Sound_init False :: (nat, nat) sound_engine)) =
     [(Inr True, [Channel_play 5 0 (PyInt 0) (PyInt 0) (PyInt 0)]), (Inr True, []),
      (Inr True, [Channel_play 7 0 (PyInt 0) (PyInt 0) (PyInt 0)])]"
proof -
  have h: "d_type (example_dict SOUND_TYPE_EVENT) \<in> set type_sounds \<and>
      d_length (example_dict SOUND_TYPE_EVENT) = Fin 1 \<and>
      \<not> escapes Play_returns \<and> \<not> escapes Play_pygame_error"
    by (simp add: example_dict_fields event_is_type_sound escapes_simps)
  show ?thesis
    using h overlap_example_binary64
      [of "example_dict SOUND_TYPE_EVENT" Play_returns Play_pygame_error Play_returns
        "5::nat" "py_float 0" "6::nat" "py_float (1 / 10)" "7::nat" "py_float (3 / 10)"]
    by (simp add: example_dict_fields gate_0_1 gate_0_3 del: play_sound_calls.simps)
qed




text \<open>
  Claim C3.  With \<open>uniquechannel\<close> set the overlap condition always holds.  A call of
  \<open>_play_sound\<close> on a bound sound with a channel then calls \<open>channel.stop\<close> and after
  it \<open>channel.play\<close>, whatever \<open>channel.play\<close> does: the call returns true with
  \<open>_last_play\<close> and \<open>_last_time\<close> set, unless \<open>channel.play\<close> raises an exception
  other than \<open>pygame.error\<close>, which leaves the method after the two calls.  Two
  consecutive calls for the same sound, at any two clock readings (0 and 0.01 among
  them), each make these two calls, on the cached channel.
\<close>

theorem play_sound_unique_stops_then_plays:
  "(uniquechannel s \<longrightarrow> overlap_gate d now (snd (get_channel found s))) \<and>
   (uniquechannel s \<and> fst (get_channel found s) = Some ch \<longrightarrow>
      play_sound found now outcome (Some d) s =
        (case outcome of
           Play_returns \<Rightarrow>
             (Inr True,
              [Channel_stop ch,
               Channel_play ch (d_file d) (d_loops d) (d_maxtime d) (d_fade_ms d)],
              (snd (get_channel found s))\<lparr>last_play := d_type d, last_time := now\<rparr>)
         | Play_pygame_error \<Rightarrow>
             (Inr True,
              [Channel_stop ch,
               Channel_play ch (d_file d) (d_loops d) (d_maxtime d) (d_fade_ms d)],
              (snd (get_channel found s))\<lparr>last_play := d_type d, last_time := now\<rparr>)
         | Play_raises e \<Rightarrow>
             (Inl e,
              [Channel_stop ch,
               Channel_play ch (d_file d) (d_loops d) (d_maxtime d) (d_fade_ms d)],
              snd (get_channel found s)))) \<and>
   (uniquechannel s \<and> fst (get_channel found s) = Some ch \<longrightarrow>
      map snd (fst (play_sound_calls [(found, t0, o0), (found2, t1, o1)] (Some d) s)) =
        [[Channel_stop ch, Channel_play ch (d_file d) (d_loops d) (d_maxtime d) (d_fade_ms d)],
         [Channel_stop ch, Channel_play ch (d_file d) (d_loops d) (d_maxtime d) (d_fade_ms d)]])"
proof -
  let ?calls = "[Channel_stop ch,
                 Channel_play ch (d_file d) (d_loops d) (d_maxtime d) (d_fade_ms d)]"
  have gate: "overlap_gate d t s'" if "uniquechannel s'" for t and s' :: "('a, 'b) sound_engine"
    using that by (simp add: overlap_gate_def)
  have one: "play_sound f t oc (Some d) s' =
        (case oc of
           Play_returns \<Rightarrow>
             (Inr True, ?calls, (snd (get_channel f s'))\<lparr>last_play := d_type d, last_time := t\<rparr>)
         | Play_pygame_error \<Rightarrow>
             (Inr True, ?calls, (snd (get_channel f s'))\<lparr>last_play := d_type d, last_time := t\<rparr>)
         | Play_raises e \<Rightarrow> (Inl e, ?calls, snd (get_channel f s')))"
    if u: "uniquechannel s'" and c: "fst (get_channel f s') = Some ch"
    for f t oc and s' :: "('a, 'b) sound_engine"
  proof -
    have g: "overlap_gate d t (snd (get_channel f s'))"
      using u by (simp add: gate get_channel_keeps)
    show ?thesis
      using u by (cases oc)
        (simp_all add: play_sound_played [OF c g] play_sound_escapes [OF c g] escapes_simps)
  qed
  have calls: "fst (snd (play_sound f t oc (Some d) s')) = ?calls"
    if "uniquechannel s'" "fst (get_channel f s') = Some ch"
    for f t oc and s' :: "('a, 'b) sound_engine"
    using one [OF that, of t oc] by (cases oc) simp_all
  have after: "uniquechannel (snd (snd (play_sound f t oc (Some d) s'))) \<and>
      channel (snd (snd (play_sound f t oc (Some d) s'))) = Some ch"
    if u: "uniquechannel s'" and c: "fst (get_channel f s') = Some ch"
    for f t oc and s' :: "('a, 'b) sound_engine"
  proof -
    have cached: "channel (snd (get_channel f s')) = Some ch"
      using c by (simp add: get_channel_def Let_def split: if_splits)
    show ?thesis
      using one [OF u c, of t oc] u cached by (cases oc) (simp_all add: get_channel_keeps)
  qed
  have two: "map snd (fst (play_sound_calls [(found, t0, o0), (found2, t1, o1)] (Some d) s)) =
        [?calls, ?calls]"
    if u: "uniquechannel s" and c: "fst (get_channel found s) = Some ch"
  proof -
    let ?s1 = "snd (snd (play_sound found t0 o0 (Some d) s))"
    have u1: "uniquechannel ?s1" and ch1: "channel ?s1 = Some ch"
      using after [OF u c, of t0 o0] by simp_all
    have c1: "fst (get_channel found2 ?s1) = Some ch"
      using u1 ch1 by (simp add: get_channel_unique_cached)
    show ?thesis
      unfolding play_sound_calls_step
      by (simp add: calls [OF u c] calls [OF u1 c1])
  qed
  show ?thesis using gate [of "snd (get_channel found s)" now] one [of s found now outcome] two
    by (simp add: get_channel_keeps)
qed

theorem play_sound_unique_stops_then_plays_witness:
  "uniquechannel (Sound_init True :: (nat, nat) sound_engine) \<and>
   fst (get_channel (Some 4) (Sound_init True :: (nat, nat) sound_engine)) = Some 4 \<and>
   fst (play_sound (Some 4) (py_float 0) Play_returns (Some (example_dict SOUND_TYPE_EVENT))
         (Sound_init True :: (nat, nat) sound_engine)) = Inr True \<and>
   fst (snd (play_sound (Some 4) (py_float 0) Play_returns (Some (example_dict SOUND_TYPE_EVENT))
         (Sound_init True :: (nat, nat) sound_engine))) =
     [Channel_stop 4, Channel_play 4 0 (PyInt 0) (PyInt 0) (PyInt 0)] \<and>
   map snd (fst (play_sound_calls
         [(Some 4, py_float 0, Play_returns), (Some 9, py_float (1 / 100), Play_returns)]
         (Some (example_dict SOUND_TYPE_EVENT)) (Sound_init True :: (nat, nat) sound_engine))) =
     [[Channel_stop 4, Channel_play 4 0 (PyInt 0) (PyInt 0) (PyInt 0)],
      [Channel_stop 4, Channel_play 4 0 (PyInt 0) (PyInt 0) (PyInt 0)]]"
proof -
  have u: "uniquechannel (Sound_init True :: (nat, nat) sound_engine)"
    by (simp add: Sound_init_fields)
  have c: "fst (get_channel (Some 4) (Sound_init True :: (nat, nat) sound_engine)) = Some 4"
    by (simp add: get_channel_def Sound_init_fields)
  show ?thesis
    using u c play_sound_unique_stops_then_plays
      [of "Sound_init True :: (nat, nat) sound_engine" "example_dict SOUND_TYPE_EVENT"
        "py_float 0" "Some 4" 4 Play_returns "py_float 0" Play_returns "Some 9"
        "py_float (1 / 100)" Play_returns]
    by (simp add: example_dict_fields del: play_sound_calls.simps)
qed

subsection \<open>Channel information\<close>

text \<open>
  Claim C7.  \<open>get_channel_info\<close> returns the empty dict exactly when channel
  acquisition gives no channel; otherwise the dict has the five keys \<open>busy\<close>,
  \<open>endevent\<close>, \<open>queue\<close>, \<open>sound\<close> and \<open>volume\<close>, each with the value of the
  channel's getter.
\<close>

theorem get_channel_info_empty_or_full:
  "(fst (get_channel_info g found s) = Map.empty \<longleftrightarrow> fst (get_channel found s) = None) \<and>
   (fst (get_channel found s) = Some ch \<longrightarrow>
      dom (fst (get_channel_info g found s)) =
        {''busy'', ''endevent'', ''queue'', ''sound'', ''volume''} \<and>
      fst (get_channel_info g found s) ''busy'' = Some (get_busy g ch) \<and>
      fst (get_channel_info g found s) ''endevent'' = Some (get_endevent g ch) \<and>
      fst (get_channel_info g found s) ''queue'' = Some (get_queue g ch) \<and>
      fst (get_channel_info g found s) ''sound'' = Some (get_sound g ch) \<and>
      fst (get_channel_info g found s) ''volume'' = Some (get_volume g ch))"
proof (cases "get_channel found s")
  case (Pair r s1)
  show ?thesis
  proof (cases r)
    case None
    then show ?thesis using Pair by (simp add: get_channel_info_def)
  next
    case (Some c)
    have "fst (get_channel_info g found s) ''volume'' \<noteq> None"
      using Pair Some by (simp add: get_channel_info_def)
    then have "fst (get_channel_info g found s) \<noteq> Map.empty" by auto
    then show ?thesis using Pair Some by (auto simp add: get_channel_info_def)
  qed
qed

theorem get_channel_info_empty_or_full_witness:
  "fst (get_channel (Some 2) (Sound_init True :: (nat, nat) sound_engine)) = Some 2 \<and>
   dom (fst (get_channel_info example_getters (Some 2) (Sound_init True :: (nat, nat) sound_engine)))
     = {''busy'', ''endevent'', ''queue'', ''sound'', ''volume''} \<and>
   fst (get_channel_info example_getters (Some 2) (Sound_init True :: (nat, nat) sound_engine))
     ''volume'' = Some (PyFloat (Fin 1)) \<and>
   fst (get_channel_info example_getters None (Sound_init True :: (nat, nat) sound_engine))
     = Map.empty"
proof -
  have c: "fst (get_channel (Some 2) (Sound_init True :: (nat, nat) sound_engine)) = Some 2"
    by (simp add: get_channel_def Sound_init_fields)
  have n: "fst (get_channel None (Sound_init True :: (nat, nat) sound_engine)) = None"
    by (simp add: get_channel_def Sound_init_fields)
  show ?thesis
    using c n
      get_channel_info_empty_or_full
        [of example_getters "Some 2" "Sound_init True :: (nat, nat) sound_engine" 2]
      get_channel_info_empty_or_full
        [of example_getters None "Sound_init True :: (nat, nat) sound_engine" 2]
    by (simp add: example_getters_def)
qed

subsection \<open>Binding a sound\<close>

lemma py_negative_not_ge: "py_negative v \<Longrightarrow> \<not> py_ge_int v 0"
  by (auto simp: py_negative_def py_ge_int_def split: pyval.splits pyfloat.splits)

lemma volume_out_of_range_fails:
  "volume_out_of_range x \<Longrightarrow> \<not> (py_int_ge 1 (PyFloat x) \<and> py_ge_int (PyFloat x) 0)"
  by (cases x) (auto simp: volume_out_of_range_def py_ge_int_def py_int_ge_def)

lemma set_sound_asserts_None:
  "set_sound_asserts sound_type sound_file volume loops maxtime fade_ms = None \<longleftrightarrow>
     isinstance_str sound_type \<and> isinstance_str_or_none sound_file \<and>
     isinstance_float volume \<and> isinstance_int loops \<and>
     isinstance_int_or_float maxtime \<and> isinstance_int_or_float fade_ms \<and>
     py_ge_int loops 0 \<and> py_ge_int maxtime 0 \<and> py_ge_int fade_ms 0 \<and>
     py_int_ge 1 volume \<and> py_ge_int volume 0"
  by (simp add: set_sound_asserts_def)

lemma set_sound_assert_fails:
  "set_sound_asserts sound_type sound_file volume loops maxtime fade_ms = Some failed \<Longrightarrow>
   set_sound env sound_type sound_file volume loops maxtime fade_ms s =
     (Inl (AssertionError failed), [], s)"
  by (simp add: set_sound_def)

lemma set_sound_assert_fails_any:
  assumes "set_sound_asserts sound_type sound_file volume loops maxtime fade_ms \<noteq> None"
  shows "assertion_error (fst (set_sound env sound_type sound_file volume loops maxtime fade_ms s)) \<and>
         snd (snd (set_sound env sound_type sound_file volume loops maxtime fade_ms s)) = s"
proof -
  from assms obtain failed
    where "set_sound_asserts sound_type sound_file volume loops maxtime fade_ms = Some failed"
    by (cases "set_sound_asserts sound_type sound_file volume loops maxtime fade_ms") simp_all
  then show ?thesis by (simp add: set_sound_assert_fails assertion_error_def)
qed

lemma set_sound_unknown_type:
  "set_sound_asserts (PyStr k) sound_file volume loops maxtime fade_ms = None \<Longrightarrow>
   k \<notin> set type_sounds \<Longrightarrow>
   set_sound env (PyStr k) sound_file volume loops maxtime fade_ms s = (Inl ValueError, [], s)"
  by (simp add: set_sound_def)

lemma set_sound_none:
  "set_sound_asserts (PyStr k) PyNone volume loops maxtime fade_ms = None \<Longrightarrow>
   k \<in> set type_sounds \<Longrightarrow>
   set_sound env (PyStr k) PyNone volume loops maxtime fade_ms s =
     (Inr False, [], s\<lparr>sound := (sound s)(k \<mapsto> None)\<rparr>)"
  by (simp add: set_sound_def)

lemma set_sound_missing_file:
  "set_sound_asserts (PyStr k) (PyStr f) volume loops maxtime fade_ms = None \<Longrightarrow>
   k \<in> set type_sounds \<Longrightarrow> \<not> isfile env f \<Longrightarrow>
   set_sound env (PyStr k) (PyStr f) volume loops maxtime fade_ms s = (Inl IOError, [], s)"
  by (simp add: set_sound_def)

lemma set_sound_bad_format:
  "set_sound_asserts (PyStr k) (PyStr f) volume loops maxtime fade_ms = None \<Longrightarrow>
   k \<in> set type_sounds \<Longrightarrow> isfile env f \<Longrightarrow> mixer_Sound env f = None \<Longrightarrow>
   set_sound env (PyStr k) (PyStr f) volume loops maxtime fade_ms s =
     (Inr False, [format_warning], s\<lparr>sound := (sound s)(k \<mapsto> None)\<rparr>)"
  by (simp add: set_sound_def)

lemma set_sound_loaded:
  "set_sound_asserts (PyStr k) (PyStr f) volume loops maxtime fade_ms = None \<Longrightarrow>
   k \<in> set type_sounds \<Longrightarrow> isfile env f \<Longrightarrow> mixer_Sound env f = Some loaded \<Longrightarrow>
   set_sound env (PyStr k) (PyStr f) volume loops maxtime fade_ms s =
     (Inr True, [],
      s\<lparr>sound := (sound s)(k \<mapsto> Some
        \<lparr> d_file = set_volume env loaded volume, d_path = f, d_type = k,
          d_length = get_length env (set_volume env loaded volume), d_volume = volume,
          d_loops = loops, d_maxtime = maxtime, d_fade_ms = fade_ms \<rparr>)\<rparr>)"
  by (simp add: set_sound_def Let_def)

lemma default_parameters_pass:
  "set_sound_asserts (PyStr k) PyNone (PyFloat (Fin (1 / 2))) (PyInt 0) (PyInt 0) (PyInt 0) = None"
  "set_sound_asserts (PyStr k) (PyStr f) (PyFloat (Fin (1 / 2))) (PyInt 0) (PyInt 0) (PyInt 0) = None"
  "set_sound_asserts (PyStr k) PyNone (PyFloat (Fin 0)) (PyInt 0) (PyInt 0) (PyInt 0) = None"
  "set_sound_asserts (PyStr k) PyNone (PyFloat (Fin 1)) (PyInt 0) (PyInt 0) (PyInt 0) = None"
  by (simp_all add: set_sound_asserts_None isinstance_float_def isinstance_str_def
      isinstance_str_or_none_def isinstance_int_def isinstance_int_or_float_def
      py_ge_int_def py_int_ge_def)

lemma example_env_files:
  "isfile example_env ''event.ogg''"
  "mixer_Sound example_env ''event.ogg'' = Some 0"
  "isfile example_env ''broken.ogg''"
  "mixer_Sound example_env ''broken.ogg'' = None"
  "\<not> isfile example_env ''missing.ogg''"
  "set_volume example_env loaded v = loaded"
  "get_length example_env loaded = Fin 1"
  by (simp_all add: example_env_def)

text \<open>
  Claim C5.  For a valid sound type and parameters that pass the assertions:
  \<open>set_sound\<close> with \<open>None\<close> as file empties the entry of the type and returns false;
  with an existing file that the mixer cannot decode it emits the warning, empties the
  entry and returns false; with an existing file that decodes it stores the sound with
  its path, type, length and parameters under the type and returns true.  None of the
  three raises.
\<close>

theorem set_sound_binds_or_clears:
  "(set_sound_asserts (PyStr k) PyNone volume loops maxtime fade_ms = None \<and>
    k \<in> set type_sounds \<longrightarrow>
      set_sound env (PyStr k) PyNone volume loops maxtime fade_ms s =
        (Inr False, [], s\<lparr>sound := (sound s)(k \<mapsto> None)\<rparr>)) \<and>
   (set_sound_asserts (PyStr k) (PyStr f) volume loops maxtime fade_ms = None \<and>
    k \<in> set type_sounds \<and> isfile env f \<and> mixer_Sound env f = None \<longrightarrow>
      set_sound env (PyStr k) (PyStr f) volume loops maxtime fade_ms s =
        (Inr False, [format_warning], s\<lparr>sound := (sound s)(k \<mapsto> None)\<rparr>)) \<and>
   (set_sound_asserts (PyStr k) (PyStr f) volume loops maxtime fade_ms = None \<and>
    k \<in> set type_sounds \<and> isfile env f \<and> mixer_Sound env f = Some loaded \<longrightarrow>
      set_sound env (PyStr k) (PyStr f) volume loops maxtime fade_ms s =
        (Inr True, [],
         s\<lparr>sound := (sound s)(k \<mapsto> Some
           \<lparr> d_file = set_volume env loaded volume, d_path = f, d_type = k,
             d_length = get_length env (set_volume env loaded volume), d_volume = volume,
             d_loops = loops, d_maxtime = maxtime, d_fade_ms = fade_ms \<rparr>)\<rparr>))"
proof (intro conjI impI)
  assume "set_sound_asserts (PyStr k) PyNone volume loops maxtime fade_ms = None \<and>
    k \<in> set type_sounds"
  then show "set_sound env (PyStr k) PyNone volume loops maxtime fade_ms s =
        (Inr False, [], s\<lparr>sound := (sound s)(k \<mapsto> None)\<rparr>)"
    by (simp add: set_sound_none)
next
  assume "set_sound_asserts (PyStr k) (PyStr f) volume loops maxtime fade_ms = None \<and>
    k \<in> set type_sounds \<and> isfile env f \<and> mixer_Sound env f = None"
  then show "set_sound env (PyStr k) (PyStr f) volume loops maxtime fade_ms s =
        (Inr False, [format_warning], s\<lparr>sound := (sound s)(k \<mapsto> None)\<rparr>)"
    by (simp add: set_sound_bad_format)
next
  assume "set_sound_asserts (PyStr k) (PyStr f) volume loops maxtime fade_ms = None \<and>
    k \<in> set type_sounds \<and> isfile env f \<and> mixer_Sound env f = Some loaded"
  then show "set_sound env (PyStr k) (PyStr f) volume loops maxtime fade_ms s =
        (Inr True, [],
         s\<lparr>sound := (sound s)(k \<mapsto> Some
           \<lparr> d_file = set_volume env loaded volume, d_path = f, d_type = k,
             d_length = get_length env (set_volume env loaded volume), d_volume = volume,
             d_loops = loops, d_maxtime = maxtime, d_fade_ms = fade_ms \<rparr>)\<rparr>)"
    by (simp add: set_sound_loaded)
qed

theorem set_sound_binds_or_clears_witness:
  "set_sound_asserts (PyStr SOUND_TYPE_EVENT) (PyStr ''event.ogg'') (PyFloat (Fin (1 / 2)))
     (PyInt 0) (PyInt 0) (PyInt 0) = None \<and>
   SOUND_TYPE_EVENT \<in> set type_sounds \<and>
   isfile example_env ''event.ogg'' \<and> mixer_Sound example_env ''event.ogg'' = Some 0 \<and>
   isfile example_env ''broken.ogg'' \<and> mixer_Sound example_env ''broken.ogg'' = None \<and>
   fst (set_sound example_env (PyStr SOUND_TYPE_EVENT) (PyStr ''event.ogg'') (PyFloat (Fin (1 / 2)))
     (PyInt 0) (PyInt 0) (PyInt 0) (Sound_init True :: (nat, nat) sound_engine)) = Inr True \<and>
   sound (snd (snd (set_sound example_env (PyStr SOUND_TYPE_EVENT) (PyStr ''event.ogg'')
     (PyFloat (Fin (1 / 2))) (PyInt 0) (PyInt 0) (PyInt 0)
     (Sound_init True :: (nat, nat) sound_engine)))) SOUND_TYPE_EVENT =
     Some (Some (example_dict SOUND_TYPE_EVENT)) \<and>
   fst (set_sound example_env (PyStr SOUND_TYPE_EVENT) (PyStr ''broken.ogg'') (PyFloat (Fin (1 / 2)))
     (PyInt 0) (PyInt 0) (PyInt 0) (Sound_init True :: (nat, nat) sound_engine)) = Inr False \<and>
   fst (snd (set_sound example_env (PyStr SOUND_TYPE_EVENT) (PyStr ''broken.ogg'')
     (PyFloat (Fin (1 / 2))) (PyInt 0) (PyInt 0) (PyInt 0)
     (Sound_init True :: (nat, nat) sound_engine))) = [format_warning] \<and>
   sound (snd (snd (set_sound example_env (PyStr SOUND_TYPE_EVENT) (PyStr ''broken.ogg'')
     (PyFloat (Fin (1 / 2))) (PyInt 0) (PyInt 0) (PyInt 0)
     (Sound_init True :: (nat, nat) sound_engine)))) SOUND_TYPE_EVENT = Some None \<and>
   fst (set_sound example_env (PyStr SOUND_TYPE_EVENT) PyNone (PyFloat (Fin (1 / 2)))
     (PyInt 0) (PyInt 0) (PyInt 0) (Sound_init True :: (nat, nat) sound_engine)) = Inr False \<and>
   sound (snd (snd (set_sound example_env (PyStr SOUND_TYPE_EVENT) PyNone
     (PyFloat (Fin (1 / 2))) (PyInt 0) (PyInt 0) (PyInt 0)
     (Sound_init True :: (nat, nat) sound_engine)))) SOUND_TYPE_EVENT = Some None"
  using set_sound_binds_or_clears
    [of SOUND_TYPE_EVENT "PyFloat (Fin (1 / 2))" "PyInt 0" "PyInt 0" "PyInt 0" example_env
      "Sound_init True :: (nat, nat) sound_engine" "''event.ogg''" 0]
    set_sound_binds_or_clears
    [of SOUND_TYPE_EVENT "PyFloat (Fin (1 / 2))" "PyInt 0" "PyInt 0" "PyInt 0" example_env
      "Sound_init True :: (nat, nat) sound_engine" "''broken.ogg''" 0]
  by (simp add: default_parameters_pass event_is_type_sound example_env_files example_dict_def)

text \<open>
  Claim C6.  \<open>set_sound\<close> raises an \<open>AssertionError\<close> for every volume outside
  \<open>[0, 1]\<close>, float or int, and for every negative \<open>loops\<close>, \<open>maxtime\<close> or \<open>fade_ms\<close>; for a sound
  type that is not one of the nine it raises \<open>ValueError\<close> when the assertions pass and
  an \<open>AssertionError\<close> otherwise; and for a known type, parameters that pass the
  assertions and a path that is not an existing file it raises \<open>IOError\<close>.  In all
  these cases the exception reaches the caller and the object is unchanged.
\<close>

theorem set_sound_rejects:
  "(volume = PyFloat x \<and> volume_out_of_range x \<or> volume = PyInt n \<and> (n < 0 \<or> 1 < n) \<longrightarrow>
      assertion_error (fst (set_sound env sound_type sound_file volume loops maxtime fade_ms s)) \<and>
      snd (snd (set_sound env sound_type sound_file volume loops maxtime fade_ms s)) = s) \<and>
   (py_negative loops \<or> py_negative maxtime \<or> py_negative fade_ms \<longrightarrow>
      assertion_error (fst (set_sound env sound_type sound_file volume loops maxtime fade_ms s)) \<and>
      snd (snd (set_sound env sound_type sound_file volume loops maxtime fade_ms s)) = s) \<and>
   (sound_type \<notin> PyStr ` set type_sounds \<longrightarrow>
      (if set_sound_asserts sound_type sound_file volume loops maxtime fade_ms = None
       then fst (set_sound env sound_type sound_file volume loops maxtime fade_ms s) = Inl ValueError
       else assertion_error (fst (set_sound env sound_type sound_file volume loops maxtime fade_ms s))) \<and>
      snd (snd (set_sound env sound_type sound_file volume loops maxtime fade_ms s)) = s) \<and>
   (set_sound_asserts sound_type sound_file volume loops maxtime fade_ms = None \<and>
    sound_type = PyStr k \<and> k \<in> set type_sounds \<and> sound_file = PyStr f \<and> \<not> isfile env f \<longrightarrow>
      set_sound env sound_type sound_file volume loops maxtime fade_ms s = (Inl IOError, [], s))"
proof (intro conjI impI)
  assume "volume = PyFloat x \<and> volume_out_of_range x \<or> volume = PyInt n \<and> (n < 0 \<or> 1 < n)"
  then have "set_sound_asserts sound_type sound_file volume loops maxtime fade_ms \<noteq> None"
    using volume_out_of_range_fails [of x]
    by (auto simp add: set_sound_asserts_None isinstance_float_def)
  then show "assertion_error (fst (set_sound env sound_type sound_file volume loops maxtime fade_ms s))"
    and "snd (snd (set_sound env sound_type sound_file volume loops maxtime fade_ms s)) = s"
    by (simp_all add: set_sound_assert_fails_any)
next
  assume "py_negative loops \<or> py_negative maxtime \<or> py_negative fade_ms"
  then have "set_sound_asserts sound_type sound_file volume loops maxtime fade_ms \<noteq> None"
    using py_negative_not_ge by (auto simp add: set_sound_asserts_None)
  then show "assertion_error (fst (set_sound env sound_type sound_file volume loops maxtime fade_ms s))"
    and "snd (snd (set_sound env sound_type sound_file volume loops maxtime fade_ms s)) = s"
    by (simp_all add: set_sound_assert_fails_any)
next
  assume unknown: "sound_type \<notin> PyStr ` set type_sounds"
  show "if set_sound_asserts sound_type sound_file volume loops maxtime fade_ms = None
       then fst (set_sound env sound_type sound_file volume loops maxtime fade_ms s) = Inl ValueError
       else assertion_error (fst (set_sound env sound_type sound_file volume loops maxtime fade_ms s))"
  proof (cases "set_sound_asserts sound_type sound_file volume loops maxtime fade_ms = None")
    case True
    then have "isinstance_str sound_type" by (simp add: set_sound_asserts_None)
    then obtain k' where k': "sound_type = PyStr k'"
      by (cases sound_type) (simp_all add: isinstance_str_def)
    with unknown have "k' \<notin> set type_sounds" by auto
    then show ?thesis using True k' by (simp add: set_sound_unknown_type)
  next
    case False
    have "assertion_error (fst (set_sound env sound_type sound_file volume loops maxtime fade_ms s))"
      using set_sound_assert_fails_any [OF False] by (rule conjunct1)
    then show ?thesis using False by (simp del: not_None_eq)
  qed
  show "snd (snd (set_sound env sound_type sound_file volume loops maxtime fade_ms s)) = s"
  proof (cases "set_sound_asserts sound_type sound_file volume loops maxtime fade_ms = None")
    case True
    then have "isinstance_str sound_type" by (simp add: set_sound_asserts_None)
    then obtain k' where k': "sound_type = PyStr k'"
      by (cases sound_type) (simp_all add: isinstance_str_def)
    with unknown have "k' \<notin> set type_sounds" by auto
    then show ?thesis using True k' by (simp add: set_sound_unknown_type)
  next
    case False
    then show ?thesis by (simp add: set_sound_assert_fails_any)
  qed
next
  assume "set_sound_asserts sound_type sound_file volume loops maxtime fade_ms = None \<and>
    sound_type = PyStr k \<and> k \<in> set type_sounds \<and> sound_file = PyStr f \<and> \<not> isfile env f"
  then show "set_sound env sound_type sound_file volume loops maxtime fade_ms s = (Inl IOError, [], s)"
    by (auto simp add: set_sound_missing_file)
qed

theorem set_sound_rejects_witness:
  "volume_out_of_range (Fin (3 / 2)) \<and> py_negative (PyInt (- 1)) \<and>
   assertion_error (fst (set_sound example_env (PyStr SOUND_TYPE_EVENT) PyNone
      (PyFloat (Fin (3 / 2))) (PyInt (- 1)) (PyInt 0) (PyInt 0)
      (Sound_init True :: (nat, nat) sound_engine))) \<and>
   PyStr ''bogus'' \<notin> PyStr ` set type_sounds \<and>
   fst (set_sound example_env (PyStr ''bogus'') PyNone (PyFloat (Fin (1 / 2)))
      (PyInt 0) (PyInt 0) (PyInt 0) (Sound_init True :: (nat, nat) sound_engine)) = Inl ValueError \<and>
   \<not> isfile example_env ''missing.ogg'' \<and>
   set_sound example_env (PyStr SOUND_TYPE_EVENT) (PyStr ''missing.ogg'') (PyFloat (Fin (1 / 2)))
      (PyInt 0) (PyInt 0) (PyInt 0) (Sound_init True :: (nat, nat) sound_engine) =
     (Inl IOError, [], Sound_init True)"
proof -
  have v: "volume_out_of_range (Fin (3 / 2))" by (simp add: volume_out_of_range_def)
  have l: "py_negative (PyInt (- 1))" by (simp add: py_negative_def)
  have b: "PyStr ''bogus'' \<notin> PyStr ` set type_sounds"
    by (simp add: image_iff type_sounds_def SOUND_TYPE_CLICK_MOUSE_def SOUND_TYPE_CLOSE_MENU_def
      SOUND_TYPE_ERROR_def SOUND_TYPE_EVENT_def SOUND_TYPE_EVENT_ERROR_def
      SOUND_TYPE_KEY_ADDITION_def SOUND_TYPE_KEY_DELETION_def SOUND_TYPE_OPEN_MENU_def
      SOUND_TYPE_WIDGET_SELECTION_def)
  show ?thesis
    using v l b
      set_sound_rejects [of "PyFloat (Fin (3 / 2))" "Fin (3 / 2)" 2 example_env
        "PyStr SOUND_TYPE_EVENT" PyNone "PyInt (- 1)" "PyInt 0" "PyInt 0"
        "Sound_init True :: (nat, nat) sound_engine" SOUND_TYPE_EVENT "''missing.ogg''"]
      set_sound_rejects [of "PyFloat (Fin (1 / 2))" "Fin (3 / 2)" 2 example_env
        "PyStr ''bogus''" PyNone "PyInt 0" "PyInt 0" "PyInt 0"
        "Sound_init True :: (nat, nat) sound_engine" SOUND_TYPE_EVENT "''missing.ogg''"]
      set_sound_rejects [of "PyFloat (Fin (1 / 2))" "Fin (3 / 2)" 2 example_env
        "PyStr SOUND_TYPE_EVENT" "PyStr ''missing.ogg''" "PyInt 0" "PyInt 0" "PyInt 0"
        "Sound_init True :: (nat, nat) sound_engine" SOUND_TYPE_EVENT "''missing.ogg''"]
    by (simp add: default_parameters_pass event_is_type_sound example_env_files)
qed

text \<open>
  Claim C9.  With an int as volume, \<open>set_sound\<close> raises an \<open>AssertionError\<close> and leaves
  the object unchanged, whatever the other arguments are (also for the volumes 0 and 1,
  an unknown sound type, a missing file or a negative parameter): the assertion that
  fails is one of the first three, the \<open>isinstance\<close> checks of \<open>sound_type\<close>,
  \<open>sound_file\<close> and \<open>volume\<close>, and it is \<open>isinstance(volume, float)\<close> when
  \<open>sound_type\<close> and \<open>sound_file\<close> have the types of the signature.  \<open>load_example_sounds\<close> fails on the same assertion.
  The floats 0.0 and 1.0 pass the assertions, and \<open>set_sound\<close> then returns for a known
  sound type.
\<close>

theorem set_sound_volume_must_be_float:
  "assertion_error (fst (set_sound env sound_type sound_file (PyInt n) loops maxtime fade_ms s)) \<and>
   snd (snd (set_sound env sound_type sound_file (PyInt n) loops maxtime fade_ms s)) = s \<and>
   fst (set_sound env sound_type sound_file (PyInt n) loops maxtime fade_ms s) \<in>
     {Inl (AssertionError ''isinstance(sound_type, str)''),
      Inl (AssertionError ''isinstance(sound_file, (str, type(None)))''),
      Inl (AssertionError ''isinstance(volume, float)'')} \<and>
   (isinstance_str sound_type \<and> isinstance_str_or_none sound_file \<longrightarrow>
      set_sound env sound_type sound_file (PyInt n) loops maxtime fade_ms s =
        (Inl (AssertionError ''isinstance(volume, float)''), [], s)) \<and>
   load_example_sounds env here (PyInt n) s =
     (Inl (AssertionError ''isinstance(volume, float)''), [], s) \<and>
   (k \<in> set type_sounds \<longrightarrow>
      fst (set_sound env (PyStr k) PyNone (PyFloat (Fin 0)) (PyInt 0) (PyInt 0) (PyInt 0) s) = Inr False \<and>
      fst (set_sound env (PyStr k) PyNone (PyFloat (Fin 1)) (PyInt 0) (PyInt 0) (PyInt 0) s) = Inr False)"
proof (intro conjI impI)
  have "set_sound_asserts sound_type sound_file (PyInt n) loops maxtime fade_ms \<noteq> None"
    by (simp add: set_sound_asserts_None isinstance_float_def)
  then show "assertion_error (fst (set_sound env sound_type sound_file (PyInt n) loops maxtime fade_ms s))"
    and "snd (snd (set_sound env sound_type sound_file (PyInt n) loops maxtime fade_ms s)) = s"
    by (simp_all add: set_sound_assert_fails_any)
next
  have "set_sound_asserts sound_type sound_file (PyInt n) loops maxtime fade_ms \<in>
      {Some ''isinstance(sound_type, str)'', Some ''isinstance(sound_file, (str, type(None)))'',
       Some ''isinstance(volume, float)''}"
    by (simp add: set_sound_asserts_def isinstance_float_def)
  then show "fst (set_sound env sound_type sound_file (PyInt n) loops maxtime fade_ms s) \<in>
     {Inl (AssertionError ''isinstance(sound_type, str)''),
      Inl (AssertionError ''isinstance(sound_file, (str, type(None)))''),
      Inl (AssertionError ''isinstance(volume, float)'')}"
    by (auto simp add: set_sound_assert_fails)
next
  assume "isinstance_str sound_type \<and> isinstance_str_or_none sound_file"
  then have "set_sound_asserts sound_type sound_file (PyInt n) loops maxtime fade_ms =
      Some ''isinstance(volume, float)''"
    by (simp add: set_sound_asserts_def isinstance_float_def)
  then show "set_sound env sound_type sound_file (PyInt n) loops maxtime fade_ms s =
        (Inl (AssertionError ''isinstance(volume, float)''), [], s)"
    by (rule set_sound_assert_fails)
next
  show "load_example_sounds env here (PyInt n) s =
     (Inl (AssertionError ''isinstance(volume, float)''), [], s)"
    by (simp add: load_example_sounds_def isinstance_float_def)
next
  assume k: "k \<in> set type_sounds"
  show "fst (set_sound env (PyStr k) PyNone (PyFloat (Fin 0)) (PyInt 0) (PyInt 0) (PyInt 0) s) = Inr False"
    using k by (simp add: set_sound_none default_parameters_pass)
  show "fst (set_sound env (PyStr k) PyNone (PyFloat (Fin 1)) (PyInt 0) (PyInt 0) (PyInt 0) s) = Inr False"
    using k by (simp add: set_sound_none default_parameters_pass)
qed

theorem set_sound_volume_must_be_float_witness:
  "isinstance_str (PyStr SOUND_TYPE_EVENT) \<and> isinstance_str_or_none (PyStr ''event.ogg'') \<and>
   SOUND_TYPE_EVENT \<in> set type_sounds \<and>
   set_sound example_env (PyStr SOUND_TYPE_EVENT) (PyStr ''event.ogg'') (PyInt 1)
      (PyInt 0) (PyInt 0) (PyInt 0) (Sound_init True :: (nat, nat) sound_engine) =
     (Inl (AssertionError ''isinstance(volume, float)''), [], Sound_init True) \<and>
   fst (set_sound example_env (PyStr SOUND_TYPE_EVENT) PyNone (PyFloat (Fin 1))
      (PyInt 0) (PyInt 0) (PyInt 0) (Sound_init True :: (nat, nat) sound_engine)) = Inr False"
  using set_sound_volume_must_be_float
    [of example_env "PyStr SOUND_TYPE_EVENT" "PyStr ''event.ogg''" 1 "PyInt 0" "PyInt 0" "PyInt 0"
      "Sound_init True :: (nat, nat) sound_engine" "''pygame_menu''" SOUND_TYPE_EVENT]
  by (simp add: isinstance_str_def isinstance_str_or_none_def event_is_type_sound)

lemma set_sound_outcomes:
  "set_sound env sound_type sound_file volume loops maxtime fade_ms s = (Inl e', w', s') \<Longrightarrow>
     s' = s"
  "set_sound env sound_type sound_file volume loops maxtime fade_ms s = (Inr b', w', s') \<Longrightarrow>
     \<exists>k v. sound_type = PyStr k \<and> s' = s\<lparr>sound := (sound s)(k \<mapsto> v)\<rparr>"
proof -
  have both: "(\<forall>e' w' s'. set_sound env sound_type sound_file volume loops maxtime fade_ms s =
                 (Inl e', w', s') \<longrightarrow> s' = s) \<and>
      (\<forall>b' w' s'. set_sound env sound_type sound_file volume loops maxtime fade_ms s =
                 (Inr b', w', s') \<longrightarrow>
                 (\<exists>k v. sound_type = PyStr k \<and> s' = s\<lparr>sound := (sound s)(k \<mapsto> v)\<rparr>))"
  proof (cases "set_sound_asserts sound_type sound_file volume loops maxtime fade_ms")
    case (Some failed)
    then show ?thesis by (simp add: set_sound_assert_fails)
  next
    case None
    then have "isinstance_str sound_type" and sf: "isinstance_str_or_none sound_file"
      by (simp_all add: set_sound_asserts_None)
    then obtain k where k: "sound_type = PyStr k"
      by (cases sound_type) (simp_all add: isinstance_str_def)
    show ?thesis
    proof (cases "k \<in> set type_sounds")
      case False
      then show ?thesis using None k by (simp add: set_sound_unknown_type)
    next
      case True
      show ?thesis
      proof (cases sound_file)
        case PyNone
        then show ?thesis using None k True by (auto simp add: set_sound_none)
      next
        case (PyStr f)
        show ?thesis
        proof (cases "isfile env f")
          case False
          then show ?thesis using None k True PyStr by (simp add: set_sound_missing_file)
        next
          case exists: True
          show ?thesis
          proof (cases "mixer_Sound env f")
            case None
            then show ?thesis
              using \<open>set_sound_asserts sound_type sound_file volume loops maxtime fade_ms = None\<close>
                k True PyStr exists
              by (auto simp add: set_sound_bad_format)
          next
            case (Some loaded)
            then show ?thesis
              using \<open>set_sound_asserts sound_type sound_file volume loops maxtime fade_ms = None\<close>
                k True PyStr exists
              by (auto simp add: set_sound_loaded)
          qed
        qed
      qed (use sf in \<open>simp_all add: isinstance_str_or_none_def\<close>)
    qed
  qed
  show "set_sound env sound_type sound_file volume loops maxtime fade_ms s = (Inl e', w', s') \<Longrightarrow>
     s' = s"
    using both by blast
  show "set_sound env sound_type sound_file volume loops maxtime fade_ms s = (Inr b', w', s') \<Longrightarrow>
     \<exists>k v. sound_type = PyStr k \<and> s' = s\<lparr>sound := (sound s)(k \<mapsto> v)\<rparr>"
    using both by blast
qed

text \<open>
  Claim C10.  Every call of \<open>set_sound\<close> leaves \<open>_channel\<close>, \<open>_uniquechannel\<close>,
  \<open>_last_play\<close> and \<open>_last_time\<close> unchanged, and leaves unchanged the entry of every
  sound type other than the one given; and a call that raises leaves the whole object
  unchanged, the entry of the given type included.
\<close>

theorem set_sound_frame:
  "channel (snd (snd (set_sound env sound_type sound_file volume loops maxtime fade_ms s))) = channel s \<and>
   uniquechannel (snd (snd (set_sound env sound_type sound_file volume loops maxtime fade_ms s))) =
     uniquechannel s \<and>
   last_play (snd (snd (set_sound env sound_type sound_file volume loops maxtime fade_ms s))) = last_play s \<and>
   last_time (snd (snd (set_sound env sound_type sound_file volume loops maxtime fade_ms s))) = last_time s \<and>
   (\<forall>k'. sound_type \<noteq> PyStr k' \<longrightarrow>
      sound (snd (snd (set_sound env sound_type sound_file volume loops maxtime fade_ms s))) k' =
        sound s k') \<and>
   (\<forall>e. fst (set_sound env sound_type sound_file volume loops maxtime fade_ms s) = Inl e \<longrightarrow>
      snd (snd (set_sound env sound_type sound_file volume loops maxtime fade_ms s)) = s)"
proof -
  obtain r w s' where res: "set_sound env sound_type sound_file volume loops maxtime fade_ms s = (r, w, s')"
    by (cases "set_sound env sound_type sound_file volume loops maxtime fade_ms s") auto
  show ?thesis
  proof (cases r)
    case (Inl e)
    then have "s' = s" using res set_sound_outcomes(1) by blast
    then show ?thesis using res by simp
  next
    case (Inr b)
    then obtain k v where "sound_type = PyStr k" "s' = s\<lparr>sound := (sound s)(k \<mapsto> v)\<rparr>"
      using res set_sound_outcomes(2) by blast
    then show ?thesis using res Inr by simp
  qed
qed

theorem set_sound_frame_witness:
  "PyStr SOUND_TYPE_EVENT \<noteq> PyStr SOUND_TYPE_CLICK_MOUSE \<and>
   fst (set_sound example_env (PyStr SOUND_TYPE_EVENT) (PyStr ''event.ogg'') (PyFloat (Fin (1 / 2)))
      (PyInt 0) (PyInt 0) (PyInt 0) (Sound_init True :: (nat, nat) sound_engine)) = Inr True \<and>
   sound (snd (snd (set_sound example_env (PyStr SOUND_TYPE_EVENT) (PyStr ''event.ogg'')
      (PyFloat (Fin (1 / 2))) (PyInt 0) (PyInt 0) (PyInt 0)
      (Sound_init True :: (nat, nat) sound_engine)))) SOUND_TYPE_CLICK_MOUSE =
     sound (Sound_init True :: (nat, nat) sound_engine) SOUND_TYPE_CLICK_MOUSE \<and>
   fst (set_sound example_env (PyStr SOUND_TYPE_EVENT) (PyStr ''missing.ogg'') (PyFloat (Fin (1 / 2)))
      (PyInt 0) (PyInt 0) (PyInt 0) (Sound_init True :: (nat, nat) sound_engine)) = Inl IOError \<and>
   snd (snd (set_sound example_env (PyStr SOUND_TYPE_EVENT) (PyStr ''missing.ogg'')
      (PyFloat (Fin (1 / 2))) (PyInt 0) (PyInt 0) (PyInt 0)
      (Sound_init True :: (nat, nat) sound_engine))) = Sound_init True"
proof -
  have d: "PyStr SOUND_TYPE_EVENT \<noteq> PyStr SOUND_TYPE_CLICK_MOUSE"
    using event_not_click_mouse by simp
  have ok: "fst (set_sound example_env (PyStr SOUND_TYPE_EVENT) (PyStr ''event.ogg'')
      (PyFloat (Fin (1 / 2))) (PyInt 0) (PyInt 0) (PyInt 0)
      (Sound_init True :: (nat, nat) sound_engine)) = Inr True"
    by (simp add: set_sound_loaded default_parameters_pass event_is_type_sound example_env_files)
  have io: "fst (set_sound example_env (PyStr SOUND_TYPE_EVENT) (PyStr ''missing.ogg'')
      (PyFloat (Fin (1 / 2))) (PyInt 0) (PyInt 0) (PyInt 0)
      (Sound_init True :: (nat, nat) sound_engine)) = Inl IOError"
    by (simp add: set_sound_missing_file default_parameters_pass event_is_type_sound
        example_env_files)
  show ?thesis
    using d ok io
      set_sound_frame [of example_env "PyStr SOUND_TYPE_EVENT" "PyStr ''event.ogg''"
        "PyFloat (Fin (1 / 2))" "PyInt 0" "PyInt 0" "PyInt 0"
        "Sound_init True :: (nat, nat) sound_engine"]
      set_sound_frame [of example_env "PyStr SOUND_TYPE_EVENT" "PyStr ''missing.ogg''"
        "PyFloat (Fin (1 / 2))" "PyInt 0" "PyInt 0" "PyInt 0"
        "Sound_init True :: (nat, nat) sound_engine"]
    by simp
qed

section \<open>Properties of the validation helpers\<close>

lemma item_checks: "isinstance_int x \<and> in_byte_range x \<longleftrightarrow> color_channel_ok x"
  by (cases x)
    (simp_all add: isinstance_int_def in_byte_range_def py_ge_int_def py_int_ge_def
      color_channel_ok_def)

lemma color_channel_ok_iff: "color_channel_ok x \<longleftrightarrow> (\<exists>n. x = PyInt n \<and> 0 \<le> n \<and> n \<le> 255)"
  by (cases x) (simp_all add: color_channel_ok_def)

lemma assert_color_loop_ok:
  "assert_color_loop color is = Inr () \<longleftrightarrow> (\<forall>i \<in> set is. color_channel_ok (color ! i))"
proof (induction "is")
  case Nil
  show ?case by simp
next
  case (Cons i rest)
  show ?case
  proof (cases "color_channel_ok (color ! i)")
    case True
    then have "isinstance_int (color ! i)" "in_byte_range (color ! i)"
      using item_checks [of "color ! i"] by simp_all
    then show ?thesis using True Cons.IH by simp
  next
    case False
    then have "\<not> isinstance_int (color ! i) \<or> \<not> in_byte_range (color ! i)"
      using item_checks [of "color ! i"] by simp
    then show ?thesis using False by auto
  qed
qed

lemma assert_color_loop_error:
  "assert_color_loop color is = Inr () \<or> assertion_error (assert_color_loop color is)"
  by (induction "is") (simp_all add: assertion_error_def)

lemma length_three_ex: "length xs = 3 \<Longrightarrow> \<exists>a b c. xs = [a, b, c]"
  by (auto simp: eval_nat_numeral length_Suc_conv)

lemma length_four_ex: "length xs = 4 \<Longrightarrow> \<exists>a b c d. xs = [a, b, c, d]"
  by (auto simp: eval_nat_numeral length_Suc_conv)

lemma assert_color_three:
  "tuple_or_list v = Some [a, b, c] \<Longrightarrow>
   assert_color v = Inr () \<longleftrightarrow> color_channel_ok a \<and> color_channel_ok b \<and> color_channel_ok c"
proof -
  assume t: "tuple_or_list v = Some [a, b, c]"
  have "assert_color v = assert_color_loop [a, b, c] [0, 1, 2]"
    unfolding assert_color_def t by (simp split: sum.splits del: assert_color_loop.simps)
  then show ?thesis by (simp add: assert_color_loop_ok del: assert_color_loop.simps)
qed

lemma assert_color_four:
  "tuple_or_list v = Some [a, b, c, d] \<Longrightarrow>
   assert_color v = Inr () \<longleftrightarrow>
     color_channel_ok a \<and> color_channel_ok b \<and> color_channel_ok c \<and> color_channel_ok d"
proof -
  assume t: "tuple_or_list v = Some [a, b, c, d]"
  show ?thesis
  proof (cases "assert_color_loop [a, b, c, d] [0, 1, 2]")
    case (Inl e)
    then have "assert_color v = Inl e"
      unfolding assert_color_def t by (simp del: assert_color_loop.simps)
    moreover have "\<not> (color_channel_ok a \<and> color_channel_ok b \<and> color_channel_ok c)"
      using Inl assert_color_loop_ok [of "[a, b, c, d]" "[0, 1, 2]"] by auto
    ultimately show ?thesis by auto
  next
    case (Inr u)
    then have abc: "color_channel_ok a \<and> color_channel_ok b \<and> color_channel_ok c"
      using assert_color_loop_ok [of "[a, b, c, d]" "[0, 1, 2]"] by simp
    have "assert_color v =
        (if \<not> isinstance_int d then Inl (AssertionError ''isinstance(color[3], int)'')
         else if \<not> in_byte_range d then Inl (AssertionError ''0 <= color[3] <= 255'')
         else Inr ())"
      unfolding assert_color_def t using Inr by (simp del: assert_color_loop.simps)
    then have "assert_color v = Inr () \<longleftrightarrow> isinstance_int d \<and> in_byte_range d"
      by simp
    then show ?thesis using abc item_checks [of d] by simp
  qed
qed

lemma assert_color_other:
  "tuple_or_list v = Some xs \<Longrightarrow> length xs \<noteq> 3 \<Longrightarrow> length xs \<noteq> 4 \<Longrightarrow>
   assert_color v = Inl (AssertionError ''4 >= len(color) >= 3'')"
proof -
  assume t: "tuple_or_list v = Some xs" and n: "length xs \<noteq> 3" "length xs \<noteq> 4"
  from n have "\<not> (4 \<ge> length xs \<and> length xs \<ge> 3)" by arith
  then show ?thesis unfolding assert_color_def t by simp
qed

lemma assert_color_not_sequence:
  "tuple_or_list v = None \<Longrightarrow>
   assert_color v = Inl (AssertionError ''isinstance(color, (tuple, list))'')"
  by (simp add: assert_color_def)

lemma assert_color_accepted: "assert_color v = Inr () \<longleftrightarrow> color_accepted v"
proof (cases "tuple_or_list v")
  case None
  then show ?thesis by (simp add: assert_color_not_sequence color_accepted_def)
next
  case (Some xs)
  show ?thesis
  proof (cases "length xs = 3")
    case True
    from length_three_ex [OF True] obtain a b c where xs: "xs = [a, b, c]" by (elim exE)
    have "tuple_or_list v = Some [a, b, c]" using Some xs by simp
    then show ?thesis by (simp add: assert_color_three color_accepted_def)
  next
    case False
    show ?thesis
    proof (cases "length xs = 4")
      case True
      from length_four_ex [OF True] obtain a b c d where xs: "xs = [a, b, c, d]" by (elim exE)
      have "tuple_or_list v = Some [a, b, c, d]" using Some xs by simp
      then show ?thesis by (simp add: assert_color_four color_accepted_def)
    next
      case four: False
      have "assert_color v = Inl (AssertionError ''4 >= len(color) >= 3'')"
        using Some False four by (rule assert_color_other)
      then show ?thesis using Some False four by (simp add: color_accepted_def)
    qed
  qed
qed

lemma assert_color_error: "assert_color v = Inr () \<or> assertion_error (assert_color v)"
proof (cases "tuple_or_list v")
  case None
  then show ?thesis by (simp add: assert_color_not_sequence assertion_error_def)
next
  case (Some xs)
  show ?thesis
  proof (cases "assert_color_loop xs [0, 1, 2]")
    case (Inl e)
    then have "assertion_error (Inl e :: py_error + unit)"
      using assert_color_loop_error [of xs "[0, 1, 2]"] by simp
    then have "assertion_error (Inl e :: py_error + unit) \<and>
        assertion_error (Inl (AssertionError ''4 >= len(color) >= 3'') :: py_error + unit)"
      by (simp add: assertion_error_def)
    then show ?thesis unfolding assert_color_def Some using Inl
      by (simp del: assert_color_loop.simps)
  next
    case (Inr u)
    then show ?thesis unfolding assert_color_def Some
      by (simp add: assertion_error_def del: assert_color_loop.simps)
  qed
qed

lemma color_accepted_iff:
  "color_accepted v \<longleftrightarrow>
     (\<exists>xs. (v = PyTuple xs \<or> v = PyList xs) \<and> (length xs = 3 \<or> length xs = 4) \<and>
           (\<forall>x \<in> set xs. \<exists>n. x = PyInt n \<and> 0 \<le> n \<and> n \<le> 255))"
  by (cases v)
    (simp_all add: color_accepted_def tuple_or_list_def list_all_iff color_channel_ok_iff)

text \<open>
  Claim C8.  \<open>assert_color\<close> returns exactly for a tuple or list of 3 or 4 items that
  are all ints between 0 and 255, and otherwise raises an \<open>AssertionError\<close>.
  \<open>(10, 20, 300)\<close> fails on the range of an item, \<open>(10, 20, 30, 255)\<close> is accepted, and
  \<open>(1, 2)\<close> fails on the length.
\<close>

theorem assert_color_accepts_exactly:
  "(assert_color v = Inr () \<longleftrightarrow>
      (\<exists>xs. (v = PyTuple xs \<or> v = PyList xs) \<and> (length xs = 3 \<or> length xs = 4) \<and>
            (\<forall>x \<in> set xs. \<exists>n. x = PyInt n \<and> 0 \<le> n \<and> n \<le> 255))) \<and>
   (assert_color v = Inr () \<or> assertion_error (assert_color v)) \<and>
   assert_color (PyTuple [PyInt 10, PyInt 20, PyInt 300]) =
     Inl (AssertionError ''0 <= color[i] <= 255'') \<and>
   assert_color (PyTuple [PyInt 10, PyInt 20, PyInt 30, PyInt 255]) = Inr () \<and>
   assert_color (PyTuple [PyInt 1, PyInt 2]) = Inl (AssertionError ''4 >= len(color) >= 3'')"
proof (intro conjI)
  show "assert_color v = Inr () \<longleftrightarrow>
      (\<exists>xs. (v = PyTuple xs \<or> v = PyList xs) \<and> (length xs = 3 \<or> length xs = 4) \<and>
            (\<forall>x \<in> set xs. \<exists>n. x = PyInt n \<and> 0 \<le> n \<and> n \<le> 255))"
    unfolding assert_color_accepted by (rule color_accepted_iff)
  show "assert_color v = Inr () \<or> assertion_error (assert_color v)"
    by (rule assert_color_error)
  show "assert_color (PyTuple [PyInt 10, PyInt 20, PyInt 300]) =
     Inl (AssertionError ''0 <= color[i] <= 255'')"
    by (simp add: assert_color_def tuple_or_list_def isinstance_int_def in_byte_range_def
        py_ge_int_def py_int_ge_def)
  show "assert_color (PyTuple [PyInt 10, PyInt 20, PyInt 30, PyInt 255]) = Inr ()"
    by (simp add: assert_color_def tuple_or_list_def isinstance_int_def in_byte_range_def
        py_ge_int_def py_int_ge_def)
  show "assert_color (PyTuple [PyInt 1, PyInt 2]) = Inl (AssertionError ''4 >= len(color) >= 3'')"
    by (simp add: assert_color_def tuple_or_list_def)
qed

theorem assert_color_accepts_exactly_witness:
  "assert_color (PyList [PyInt 0, PyInt 128, PyInt 255]) = Inr () \<and>
   assert_color (PyTuple [PyInt 10, PyFloat (Fin 20), PyInt 30]) \<noteq> Inr () \<and>
   assertion_error (assert_color (PyTuple [PyInt 10, PyFloat (Fin 20), PyInt 30]))"
  using assert_color_accepts_exactly [of "PyList [PyInt 0, PyInt 128, PyInt 255]"]
    assert_color_accepts_exactly [of "PyTuple [PyInt 10, PyFloat (Fin 20), PyInt 30]"]
  by auto

end
